theory Spec2Isabelle
  imports Main
begin

section \<open>Values and errors\<close>

text \<open>
  The variable map handed to the substitution engine is a \<^verbatim>\<open>Record<string, any>\<close>.
  The values that reach it from contact records and custom variables are modelled by the
  datatype below: the two empty values of the language, strings and booleans. Numbers and
  nested objects are outside the model (their string form depends on floating point
  printing and on user-defined conversions).
\<close>

datatype jsvalue = JUndefined | JNull | JString string | JBool bool

text \<open>\<^verbatim>\<open>String(value)\<close> on the values of the model.\<close>

fun jsString :: "jsvalue \<Rightarrow> string" where
  "jsString JUndefined = ''undefined''"
| "jsString JNull = ''null''"
| "jsString (JString s) = s"
| "jsString (JBool b) = (if b then ''true'' else ''false'')"

text \<open>Truthiness, as used by the \<^verbatim>\<open>||\<close> defaults of the composer.\<close>

fun truthy :: "jsvalue \<Rightarrow> bool" where
  "truthy JUndefined = False"
| "truthy JNull = False"
| "truthy (JString s) = (s \<noteq> [])"
| "truthy (JBool b) = b"

text \<open>
  What the source throws: a plain \<^verbatim>\<open>new Error(message)\<close> with its message, or the
  \<^verbatim>\<open>TypeError\<close> that the language raises when a value that is not a function is
  called.
\<close>

datatype error = Error string | TypeError string

text \<open>
  Reading \<^verbatim>\<open>object[key]\<close> on a plain object (one parsed from JSON or written as a
  literal): the object's own entry when it has the key; else the member that every plain
  object inherits from \<^verbatim>\<open>Object.prototype\<close>, when the key is the name of one; else
  undefined. The inherited members are functions, and for \<^verbatim>\<open>__proto__\<close> the
  prototype object itself: all of them are truthy, and none has a property that the
  composer reads from a configuration entry.
\<close>

datatype 'a property = Own 'a | Inherited | Absent

definition objectPrototypeMembers :: "string list" where
  "objectPrototypeMembers =
     [ ''constructor'', ''__defineGetter__'', ''__defineSetter__'', ''hasOwnProperty'',
       ''__lookupGetter__'', ''__lookupSetter__'', ''isPrototypeOf'', ''propertyIsEnumerable'',
       ''toString'', ''valueOf'', ''__proto__'', ''toLocaleString'' ]"

definition objectGet :: "(string \<rightharpoonup> 'a) \<Rightarrow> string \<Rightarrow> 'a property" where
  "objectGet obj key =
     (case obj key of
        Some v \<Rightarrow> Own v
      | None \<Rightarrow> if key \<in> set objectPrototypeMembers then Inherited else Absent)"

section \<open>Variable substitution\<close>

text \<open>
  The class \<^verbatim>\<open>\w\<close> of the pattern \<^verbatim>\<open>/\{\{(\w+)\}\}/g\<close> (no unicode flag): ASCII letters,
  digits and the underscore.
\<close>

definition isWordChar :: "char \<Rightarrow> bool" where
  "isWordChar c =
     (let n = (of_char c :: nat) in
        (48 \<le> n \<and> n \<le> 57) \<or> (65 \<le> n \<and> n \<le> 90) \<or> n = 95 \<or> (97 \<le> n \<and> n \<le> 122))"

text \<open>
  One attempt of the pattern at the head of the text. After the two opening braces the
  greedy \<^verbatim>\<open>\w+\<close> takes the longest run of word characters; giving characters back
  cannot help, because the character after a shorter run is a word character and not a
  closing brace. The result is the captured name and the text after the match.
\<close>

definition matchToken :: "string \<Rightarrow> (string \<times> string) option" where
  "matchToken s =
     (case s of
        c1 # c2 # t \<Rightarrow>
          if c1 = CHR ''{'' \<and> c2 = CHR ''{'' then
            (let name = takeWhile isWordChar t; r = dropWhile isWordChar t in
               if name \<noteq> [] \<and> take 2 r = ''}}'' then Some (name, drop 2 r) else None)
          else None
      | _ \<Rightarrow> None)"

text \<open>
  \<^verbatim>\<open>text.replace(pattern, callback)\<close> with a global pattern: the matches are the
  leftmost non-overlapping ones, the callback receives the matched text and the captured
  name, and an exception thrown by the callback ends the whole call.
\<close>

function replaceTokens ::
  "(string \<Rightarrow> string \<Rightarrow> error + string) \<Rightarrow> string \<Rightarrow> error + string" where
  "replaceTokens f [] = Inr []"
| "replaceTokens f (c # cs) =
     (case matchToken (c # cs) of
        Some (name, rest) \<Rightarrow>
          (case f (''{{'' @ name @ ''}}'') name of
             Inl e \<Rightarrow> Inl e
           | Inr r \<Rightarrow>
               (case replaceTokens f rest of
                  Inl e \<Rightarrow> Inl e
                | Inr out \<Rightarrow> Inr (r @ out)))
      | None \<Rightarrow>
          (case replaceTokens f cs of
             Inl e \<Rightarrow> Inl e
           | Inr out \<Rightarrow> Inr (c # out)))"
  by pat_completeness auto
termination
proof (relation "measure (\<lambda>(f, s). length s)")
  fix f :: "string \<Rightarrow> string \<Rightarrow> error + string"
  fix c cs x2 name rest
  assume "matchToken (c # cs) = Some x2" and "(name, rest) = x2"
  then have "rest = drop 2 (dropWhile isWordChar (tl cs))"
    by (cases cs) (auto simp: matchToken_def Let_def split: if_splits)
  moreover have "length (dropWhile isWordChar (tl cs)) \<le> length (tl cs)"
    by (rule length_dropWhile_le)
  ultimately show "((f, rest), (f, c # cs)) \<in> measure (\<lambda>(f, s). length s)"
    by simp
qed simp_all

text \<open>
  The options of \<^verbatim>\<open>substitute\<close>; an absent field takes the default of the
  destructuring \<^verbatim>\<open>{ strict = false, keepPlaceholders = false, warnOnMissing = true }\<close>.
  The warning written to the console for a missing variable has no effect on the result
  and is not modelled.
\<close>

record SubstitutionOptions =
  strict :: "bool option"
  keepPlaceholders :: "bool option"
  warnOnMissing :: "bool option"

definition noOptions :: SubstitutionOptions where
  "noOptions = \<lparr> strict = None, keepPlaceholders = None, warnOnMissing = None \<rparr>"

text \<open>
  The variable map holds the own properties of the \<^verbatim>\<open>variables\<close> object. The
  callback asks \<^verbatim>\<open>variables.hasOwnProperty(varName)\<close>: the method is the inherited
  one, which tests for an own property, unless the object has an own property of that very
  name. Then the call is a call of that property's value, which is no function, and the
  language raises a \<^verbatim>\<open>TypeError\<close>.
\<close>

type_synonym variables = "string \<rightharpoonup> jsvalue"

definition replaceCallback ::
  "variables \<Rightarrow> SubstitutionOptions \<Rightarrow> string \<Rightarrow> string \<Rightarrow> error + string" where
  "replaceCallback vars opts match varName =
     (case vars ''hasOwnProperty'' of
        Some shadow \<Rightarrow> Inl (TypeError ''variables.hasOwnProperty is not a function'')
      | None \<Rightarrow>
          (case vars varName of
             Some v \<Rightarrow> Inr (if v \<noteq> JNull \<and> v \<noteq> JUndefined then jsString v else [])
           | None \<Rightarrow>
               if strict opts = Some True
               then Inl (Error (''Missing required variable: '' @ varName))
               else Inr (if keepPlaceholders opts = Some True then match else [])))"

definition substitute :: "string \<Rightarrow> variables \<Rightarrow> SubstitutionOptions \<Rightarrow> error + string" where
  "substitute text vars opts = replaceTokens (replaceCallback vars opts) text"

text \<open>
  \<^verbatim>\<open>extractPlaceholders\<close>: the loop over \<^verbatim>\<open>pattern.exec(text)\<close> walks the same
  leftmost non-overlapping matches and keeps each name once, in order of first appearance.
\<close>

function scanNames :: "string \<Rightarrow> string list \<Rightarrow> string list" where
  "scanNames [] matches = matches"
| "scanNames (c # cs) matches =
     (case matchToken (c # cs) of
        Some (name, rest) \<Rightarrow>
          scanNames rest (if name \<in> set matches then matches else matches @ [name])
      | None \<Rightarrow> scanNames cs matches)"
  by pat_completeness auto
termination
proof (relation "measure (\<lambda>(s, m). length s)")
  fix c cs x2 name rest
  fix matches :: "string list"
  assume "matchToken (c # cs) = Some x2" and "(name, rest) = x2"
  then have "rest = drop 2 (dropWhile isWordChar (tl cs))"
    by (cases cs) (auto simp: matchToken_def Let_def split: if_splits)
  moreover have "length (dropWhile isWordChar (tl cs)) \<le> length (tl cs)"
    by (rule length_dropWhile_le)
  ultimately show "((rest, if name \<in> set matches then matches else matches @ [name]),
       (c # cs, matches)) \<in> measure (\<lambda>(s, m). length s)"
    by simp
qed simp_all

definition extractPlaceholders :: "string \<Rightarrow> string list" where
  "extractPlaceholders text = scanNames text []"

section \<open>Blocks and the block selector\<close>

datatype BlockCategory =
  Greeting | Opener | Intention | EventInfo | ValueProposition | Cta | Closing

text \<open>The string of a category, as it appears in a block identifier or a path.\<close>

fun categoryName :: "BlockCategory \<Rightarrow> string" where
  "categoryName Greeting = ''greeting''"
| "categoryName Opener = ''opener''"
| "categoryName Intention = ''intention''"
| "categoryName EventInfo = ''event-info''"
| "categoryName ValueProposition = ''value-proposition''"
| "categoryName Cta = ''cta''"
| "categoryName Closing = ''closing''"

record BlockVariant =
  id_variant :: string
  text_variant :: string
  placeholders :: "string list option"
  use_case :: "string option"

record EmailBlock =
  id_block :: string
  category :: BlockCategory
  tags :: "string list"
  tone_block :: "string option"
  variants :: "BlockVariant list"

text \<open>
  The two indexes of the selector: \<^verbatim>\<open>blocks\<close> by identifier and
  \<^verbatim>\<open>blocksByCategory\<close>, the blocks of each category in the order they were added.
\<close>

record BlockSelector =
  blocks :: "string \<rightharpoonup> EmailBlock"
  blocksByCategory :: "BlockCategory \<rightharpoonup> EmailBlock list"

text \<open>
  The block directory, as \<^verbatim>\<open>loadBlock\<close> sees it: for a block identifier, the block
  that reading and parsing \<^verbatim>\<open><blocksDir>/<blockId>.json\<close> gives, or nothing when the
  read or the parse throws. It does not change while the composer runs.
\<close>

type_synonym blockFiles = "string \<rightharpoonup> EmailBlock"

definition getBlocksByCategory :: "BlockSelector \<Rightarrow> BlockCategory \<Rightarrow> EmailBlock list" where
  "getBlocksByCategory bs cat = (case blocksByCategory bs cat of Some l \<Rightarrow> l | None \<Rightarrow> [])"

definition loadBlock ::
  "blockFiles \<Rightarrow> BlockSelector \<Rightarrow> string \<Rightarrow> BlockSelector \<times> EmailBlock option" where
  "loadBlock files bs blockId =
     (case blocks bs blockId of
        Some cached \<Rightarrow> (bs, Some cached)
      | None \<Rightarrow>
          (case files blockId of
             Some block \<Rightarrow>
               (let categoryBlocks = getBlocksByCategory bs (category block) in
                  (bs\<lparr> blocks := (blocks bs)(blockId \<mapsto> block),
                       blocksByCategory :=
                         (blocksByCategory bs)(category block \<mapsto> categoryBlocks @ [block]) \<rparr>,
                   Some block))
           | None \<Rightarrow> (bs, None)))"

text \<open>
  \<^verbatim>\<open>selectBlock\<close> in its two halves: the three tries that find the block, and the
  choice of the variant. A \<^verbatim>\<open>variantId\<close> is looked up only when it is truthy, that is,
  given and not the empty string.
\<close>

definition resolveBlock ::
  "blockFiles \<Rightarrow> BlockSelector \<Rightarrow> BlockCategory \<Rightarrow> string \<Rightarrow> BlockSelector \<times> EmailBlock option" where
  "resolveBlock files bs cat selector =
     (case loadBlock files bs (categoryName cat @ ''/'' @ selector) of
        (bs', Some block) \<Rightarrow> (bs', Some block)
      | (bs', None) \<Rightarrow>
          (case find (\<lambda>b. selector \<in> set (tags b)) (getBlocksByCategory bs' cat) of
             Some block \<Rightarrow> (bs', Some block)
           | None \<Rightarrow>
               (bs', find (\<lambda>b. tone_block b = Some selector) (getBlocksByCategory bs' cat))))"

definition selectVariant :: "EmailBlock \<Rightarrow> string option \<Rightarrow> BlockVariant option" where
  "selectVariant block variantId =
     (let variant =
            (case variantId of
               Some vid \<Rightarrow>
                 if vid \<noteq> [] then find (\<lambda>v. id_variant v = vid) (variants block) else None
             | None \<Rightarrow> None)
      in case variant of
           Some v \<Rightarrow> Some v
         | None \<Rightarrow> (case variants block of v # _ \<Rightarrow> Some v | [] \<Rightarrow> None))"

definition selectBlock ::
  "blockFiles \<Rightarrow> BlockSelector \<Rightarrow> BlockCategory \<Rightarrow> string \<Rightarrow> string option
     \<Rightarrow> BlockSelector \<times> (EmailBlock \<times> BlockVariant) option" where
  "selectBlock files bs cat selector variantId =
     (case resolveBlock files bs cat selector of
        (bs', None) \<Rightarrow> (bs', None)
      | (bs', Some block) \<Rightarrow>
          (bs', case selectVariant block variantId of
                  Some variant \<Rightarrow> Some (block, variant)
                | None \<Rightarrow> None))"

text \<open>
  \<^verbatim>\<open>selectBlock\<close> when the selector it is handed is undefined (a configuration entry
  without the field, see the composer): the identifier of the first try is built by the
  template literal, which writes \<^verbatim>\<open>undefined\<close>; no tag list of strings includes
  undefined; and the tone test \<^verbatim>\<open>b.tone === selector\<close> holds for the blocks without
  a tone.
\<close>

definition resolveBlockUndefined ::
  "blockFiles \<Rightarrow> BlockSelector \<Rightarrow> BlockCategory \<Rightarrow> BlockSelector \<times> EmailBlock option" where
  "resolveBlockUndefined files bs cat =
     (case loadBlock files bs (categoryName cat @ ''/'' @ ''undefined'') of
        (bs', Some block) \<Rightarrow> (bs', Some block)
      | (bs', None) \<Rightarrow>
          (case find (\<lambda>b. False) (getBlocksByCategory bs' cat) of
             Some block \<Rightarrow> (bs', Some block)
           | None \<Rightarrow> (bs', find (\<lambda>b. tone_block b = None) (getBlocksByCategory bs' cat))))"

definition selectBlockUndefined ::
  "blockFiles \<Rightarrow> BlockSelector \<Rightarrow> BlockCategory \<Rightarrow> string option
     \<Rightarrow> BlockSelector \<times> (EmailBlock \<times> BlockVariant) option" where
  "selectBlockUndefined files bs cat variantId =
     (case resolveBlockUndefined files bs cat of
        (bs', None) \<Rightarrow> (bs', None)
      | (bs', Some block) \<Rightarrow>
          (bs', case selectVariant block variantId of
                  Some variant \<Rightarrow> Some (block, variant)
                | None \<Rightarrow> None))"

text \<open>A call of \<^verbatim>\<open>selectBlock\<close> with a selector that is a string or undefined.\<close>

definition selectBlockWith ::
  "blockFiles \<Rightarrow> BlockSelector \<Rightarrow> BlockCategory \<Rightarrow> string option \<Rightarrow> string option
     \<Rightarrow> BlockSelector \<times> (EmailBlock \<times> BlockVariant) option" where
  "selectBlockWith files bs cat selector variantId =
     (case selector of
        Some s \<Rightarrow> selectBlock files bs cat s variantId
      | None \<Rightarrow> selectBlockUndefined files bs cat variantId)"

text \<open>
  The accessor for A/B tests. The index stands for
  \<^verbatim>\<open>Math.floor(Math.random() * block.variants.length)\<close>, which lies below the number of
  variants.
\<close>

definition getRandomVariant :: "EmailBlock \<Rightarrow> nat \<Rightarrow> BlockVariant option" where
  "getRandomVariant block randomIndex =
     (if variants block = [] then None
      else if randomIndex < length (variants block) then Some (variants block ! randomIndex)
      else None)"

section \<open>Configuration, contacts and options\<close>

record AudienceConfig =
  name_config :: string
  tone_config :: string
  intention :: string
  valueProps :: "string list"
  cta :: string
  eventInfo :: string
  tags_config :: "string list"
  subjectTemplate :: "string option"

text \<open>
  The fields of \<^verbatim>\<open>eventDetails.event\<close> that the composer reads; a field is
  \<open>None\<close> when it is absent, or when the event record itself is.
\<close>

record EventDetails =
  name_event :: "string option"
  date_event :: "string option"
  time_event :: "string option"
  location_event :: "string option"
  website_event :: "string option"
  ticket_url :: "string option"
  contest_url :: "string option"
  press_kit_url :: "string option"

text \<open>
  A contact is an object with the two required strings and any further own properties,
  kept in key order in \<open>properties\<close> (the optional named fields such as
  \<^verbatim>\<open>first_name\<close> or \<^verbatim>\<open>sector\<close> are among them when the contact has them).
\<close>

record ContactData =
  audience_type :: string
  email :: string
  properties :: "(string \<times> jsvalue) list"

definition objectKeys :: "ContactData \<Rightarrow> string list" where
  "objectKeys c = ''audience_type'' # ''email'' # map fst (properties c)"

text \<open>Reading a property: \<^verbatim>\<open>contact[k]\<close>, undefined when the contact has no such key.\<close>

definition contactGet :: "ContactData \<Rightarrow> string \<Rightarrow> jsvalue" where
  "contactGet c k =
     (if k = ''audience_type'' then JString (audience_type c)
      else if k = ''email'' then JString (email c)
      else case map_of (properties c) k of Some v \<Rightarrow> v | None \<Rightarrow> JUndefined)"

record BlockOverrides =
  greeting_override :: "string option"
  opener_override :: "string option"
  intention_override :: "string option"
  eventInfo_override :: "string option"
  valueProps_override :: "string list option"
  cta_override :: "string option"
  closing_override :: "string option"

record EmailCompositionOptions =
  tone_option :: "string option"
  customVariables :: "(string \<rightharpoonup> string) option"
  blockOverrides :: "BlockOverrides option"
  variantPreferences :: "(string \<rightharpoonup> string) option"
  strict_option :: "bool option"
  keepPlaceholders_option :: "bool option"

text \<open>The default \<^verbatim>\<open>options = {}\<close> of the composer's methods.\<close>

definition emptyOptions :: EmailCompositionOptions where
  "emptyOptions =
     \<lparr> tone_option = None, customVariables = None, blockOverrides = None,
       variantPreferences = None, strict_option = None, keepPlaceholders_option = None \<rparr>"

text \<open>
  The composition options handed to \<^verbatim>\<open>substitute\<close> as its options: it reads
  \<^verbatim>\<open>strict\<close> and \<^verbatim>\<open>keepPlaceholders\<close> from them and finds no
  \<^verbatim>\<open>warnOnMissing\<close>.
\<close>

definition asSubstitutionOptions :: "EmailCompositionOptions \<Rightarrow> SubstitutionOptions" where
  "asSubstitutionOptions options =
     \<lparr> strict = strict_option options, keepPlaceholders = keepPlaceholders_option options,
       warnOnMissing = None \<rparr>"

text \<open>\<^verbatim>\<open>a || b\<close> on values, and on an optional string with a string default.\<close>

definition orElse :: "jsvalue \<Rightarrow> jsvalue \<Rightarrow> jsvalue" where
  "orElse a b = (if truthy a then a else b)"

definition strOr :: "string option \<Rightarrow> string \<Rightarrow> string" where
  "strOr a b = (case a of Some s \<Rightarrow> if s \<noteq> [] then s else b | None \<Rightarrow> b)"

text \<open>\<^verbatim>\<open>a || b\<close> on an optional string when the default itself may be undefined.\<close>

definition orUndefined :: "string option \<Rightarrow> string option \<Rightarrow> string option" where
  "orUndefined a b = (case a of Some s \<Rightarrow> if s \<noteq> [] then Some s else b | None \<Rightarrow> b)"

text \<open>\<^verbatim>\<open>options.blockOverrides?.field || dflt\<close>.\<close>

definition overrideOr ::
  "EmailCompositionOptions \<Rightarrow> (BlockOverrides \<Rightarrow> string option) \<Rightarrow> string \<Rightarrow> string" where
  "overrideOr options field dflt =
     (case blockOverrides options of None \<Rightarrow> dflt | Some ov \<Rightarrow> strOr (field ov) dflt)"

definition overrideOrUndefined ::
  "EmailCompositionOptions \<Rightarrow> (BlockOverrides \<Rightarrow> string option) \<Rightarrow> string option
     \<Rightarrow> string option" where
  "overrideOrUndefined options field dflt =
     (case blockOverrides options of None \<Rightarrow> dflt | Some ov \<Rightarrow> orUndefined (field ov) dflt)"

text \<open>An object literal: a later entry overwrites an earlier one with the same key.\<close>

definition objectOf :: "(string \<times> 'v) list \<Rightarrow> (string \<rightharpoonup> 'v)" where
  "objectOf entries = foldl (\<lambda>m (k, v). m(k \<mapsto> v)) Map.empty entries"

section \<open>The composer\<close>

text \<open>
  The state of a composer. \<^verbatim>\<open>audienceConfigs\<close> holds the own entries of the
  configuration object; the composer reads it with \<^verbatim>\<open>audienceConfigs[audienceType]\<close>,
  that is, through \<open>objectGet\<close>.
\<close>

record Composer =
  audienceConfigs :: "string \<rightharpoonup> AudienceConfig"
  eventDetails :: EventDetails
  blockSelector :: BlockSelector

text \<open>
  \<^verbatim>\<open>prepareVariables\<close>: the literal's named entries, then the spread of the custom
  variables, then the spread of the remaining contact keys; \<open>++\<close> lets the right map
  win, as a later spread does.
\<close>

definition namedVariables :: "EventDetails \<Rightarrow> ContactData \<Rightarrow> (string \<times> jsvalue) list" where
  "namedVariables ev contact =
     [ (''first_name'', orElse (contactGet contact ''first_name'') (JString [])),
       (''last_name'', orElse (contactGet contact ''last_name'') (JString [])),
       (''title'', orElse (contactGet contact ''title'') (JString [])),
       (''email'', JString (email contact)),
       (''organization_name'', orElse (contactGet contact ''organization_name'') (JString [])),
       (''company_name'',
          orElse (contactGet contact ''company_name'')
            (orElse (contactGet contact ''organization_name'') (JString []))),
       (''sector'', orElse (contactGet contact ''sector'') (JString ''biotech'')),
       (''sender_name'', orElse (contactGet contact ''sender_name'') (JString [])),
       (''sender_title'', orElse (contactGet contact ''sender_title'') (JString [])),
       (''sender_email'', orElse (contactGet contact ''sender_email'') (JString [])),
       (''sender_organization'',
          orElse (contactGet contact ''sender_organization'') (JString [])),
       (''event_name'', JString (strOr (name_event ev) [])),
       (''event_date'',
          orElse (contactGet contact ''event_date'') (JString (strOr (date_event ev) []))),
       (''event_time'', JString (strOr (time_event ev) [])),
       (''event_location'', JString (strOr (location_event ev) [])),
       (''event_website'', JString (strOr (website_event ev) [])),
       (''ticket_url'', JString (strOr (ticket_url ev) [])),
       (''contest_url'', JString (strOr (contest_url ev) [])),
       (''press_kit_url'', JString (strOr (press_kit_url ev) [])),
       (''contact_email'',
          orElse (contactGet contact ''contact_email'') (JString (email contact))) ]"

definition additionalFields :: "ContactData \<Rightarrow> variables" where
  "additionalFields contact =
     foldl (\<lambda>acc k. acc(k \<mapsto> contactGet contact k)) Map.empty
       (filter (\<lambda>k. k \<notin> set [''audience_type'', ''email'', ''first_name'', ''last_name''])
          (objectKeys contact))"

definition prepareVariables ::
  "EventDetails \<Rightarrow> ContactData \<Rightarrow> EmailCompositionOptions \<Rightarrow> variables" where
  "prepareVariables ev contact options =
     objectOf (namedVariables ev contact)
       ++ (case customVariables options of
             Some custom \<Rightarrow> (\<lambda>k. map_option JString (custom k))
           | None \<Rightarrow> Map.empty)
       ++ additionalFields contact"

text \<open>The default subject lines, one for each of the nine built-in audience types.\<close>

definition subjectTemplates :: "string \<Rightarrow> (string \<times> string) list" where
  "subjectTemplates eventName =
     [ (''nonprofits'', ''Partnership Opportunity: '' @ eventName),
       (''vcs'', ''Invitation: '' @ eventName @ '' - Biotech Startup Showcase''),
       (''startups-pitch'', ''Pitch Your Startup at '' @ eventName),
       (''startups-share'', ''Help Us Spread the Word: '' @ eventName),
       (''gradschools'', ''Student Opportunity: '' @ eventName),
       (''mentors'', ''Invitation to Judge: '' @ eventName @ '' Pitch Contest''),
       (''startup-factories'', ''Connect with Biotech Ecosystem: '' @ eventName),
       (''vips'', ''Personal Invitation: '' @ eventName),
       (''journalists'', ''Press Invitation: '' @ eventName) ]"

text \<open>
  What \<^verbatim>\<open>generateSubject\<close> returns: a text, or, when the table of default lines is
  read at the name of an inherited member, that member (which is not a string).
\<close>

datatype subjectLine = SubjectText string | SubjectMember string

definition generateSubject ::
  "Composer \<Rightarrow> string \<Rightarrow> ContactData \<Rightarrow> error + subjectLine" where
  "generateSubject cmp audienceType contact =
     (let config = objectGet (audienceConfigs cmp) audienceType;
          eventName = strOr (name_event (eventDetails cmp)) ''Event'';
          template = (case config of
                        Own c \<Rightarrow> strOr (subjectTemplate c) []
                      | Inherited \<Rightarrow> []
                      | Absent \<Rightarrow> [])
      in if template \<noteq> [] then
           (case substitute template
                   (prepareVariables (eventDetails cmp) contact emptyOptions) noOptions of
              Inl e \<Rightarrow> Inl e
            | Inr s \<Rightarrow> Inr (SubjectText s))
         else
           (case objectGet (objectOf (subjectTemplates eventName)) audienceType of
              Own s \<Rightarrow> Inr (SubjectText (if s \<noteq> [] then s else ''Invitation: '' @ eventName))
            | Inherited \<Rightarrow> Inr (SubjectMember audienceType)
            | Absent \<Rightarrow> Inr (SubjectText (''Invitation: '' @ eventName))))"

record BlocksUsed =
  greeting_used :: "string option"
  opener_used :: "string option"
  intention_used :: "string option"
  eventInfo_used :: "string option"
  valueProps_used :: "string list option"
  cta_used :: "string option"
  closing_used :: "string option"

record Metadata =
  audience_type_used :: string
  tone_used :: "string option"
  blocks_used :: BlocksUsed
  variables_used :: "string list"

record ComposedEmail =
  subject :: subjectLine
  body :: string
  metadata :: Metadata

type_synonym selection = "(EmailBlock \<times> BlockVariant) option"

record SelectedBlocks =
  greeting_sel :: selection
  opener_sel :: selection
  intention_sel :: selection
  eventInfo_sel :: selection
  valueProps_sel :: "selection list"
  cta_sel :: selection
  closing_sel :: selection

text \<open>
  The value-proposition selectors. The composer starts their lookups together
  (\<^verbatim>\<open>Promise.all\<close> over the mapped calls) and keeps the results in list order. The
  model runs the lookups one after the other in that order. The two agree whenever no
  lookup loads a block from the block directory that another lookup of the same list could
  see, in particular when all blocks were loaded at initialisation; which lookup sees a
  block that another one is loading at the same time is not modelled.
\<close>

fun selectBlocks ::
  "blockFiles \<Rightarrow> BlockSelector \<Rightarrow> BlockCategory \<Rightarrow> string list
     \<Rightarrow> BlockSelector \<times> selection list" where
  "selectBlocks files bs cat [] = (bs, [])"
| "selectBlocks files bs cat (selector # selectors) =
     (case selectBlock files bs cat selector None of
        (bs', r) \<Rightarrow>
          (case selectBlocks files bs' cat selectors of
             (bs'', rs) \<Rightarrow> (bs'', r # rs)))"

text \<open>
  The first half of \<^verbatim>\<open>composeEmail\<close>: the selections of the seven categories, each
  \<^verbatim>\<open>selectBlock\<close> call made with two arguments (no variant identifier).
  \<open>audienceConfig\<close> is the entry the composer found, or \<open>None\<close> when what it found
  is an inherited member, whose \<^verbatim>\<open>tone\<close>, \<^verbatim>\<open>intention\<close>, \<^verbatim>\<open>eventInfo\<close>,
  \<^verbatim>\<open>valueProps\<close> and \<^verbatim>\<open>cta\<close> are all undefined; the tone is then undefined
  too, unless the options give one.
\<close>

definition selectAll ::
  "blockFiles \<Rightarrow> BlockSelector \<Rightarrow> AudienceConfig option \<Rightarrow> EmailCompositionOptions
     \<Rightarrow> string option \<Rightarrow> BlockSelector \<times> SelectedBlocks" where
  "selectAll files bs0 audienceConfig options tone =
     (case selectBlockWith files bs0 Greeting
             (overrideOrUndefined options greeting_override tone) None of
        (bs1, greeting) \<Rightarrow>
     (case selectBlockWith files bs1 Opener
             (overrideOrUndefined options opener_override
                (map_option intention audienceConfig)) None of
        (bs2, opener) \<Rightarrow>
     (case selectBlockWith files bs2 Intention
             (overrideOrUndefined options intention_override
                (map_option intention audienceConfig)) None of
        (bs3, intent) \<Rightarrow>
     (case selectBlock files bs3 EventInfo
             (overrideOr options eventInfo_override
                (strOr (map_option eventInfo audienceConfig) ''brief'')) None of
        (bs4, evInfo) \<Rightarrow>
     (case selectBlocks files bs4 ValueProposition
             (case (case blockOverrides options of
                      Some ov \<Rightarrow> valueProps_override ov | None \<Rightarrow> None) of
                Some selectors \<Rightarrow> selectors
              | None \<Rightarrow>
                  (case map_option valueProps audienceConfig of
                     Some selectors \<Rightarrow> selectors
                   | None \<Rightarrow> [])) of
        (bs5, valProps) \<Rightarrow>
     (case selectBlockWith files bs5 Cta
             (overrideOrUndefined options cta_override (map_option cta audienceConfig)) None of
        (bs6, ctaSel) \<Rightarrow>
     (case selectBlockWith files bs6 Closing
             (overrideOrUndefined options closing_override tone) None of
        (bs7, closing) \<Rightarrow>
          (bs7, \<lparr> greeting_sel = greeting, opener_sel = opener, intention_sel = intent,
                  eventInfo_sel = evInfo, valueProps_sel = valProps, cta_sel = ctaSel,
                  closing_sel = closing \<rparr>))))))))"

definition selectionList :: "SelectedBlocks \<Rightarrow> selection list" where
  "selectionList sel =
     [greeting_sel sel, opener_sel sel, intention_sel sel, eventInfo_sel sel]
       @ valueProps_sel sel @ [cta_sel sel, closing_sel sel]"

text \<open>
  The second half: each resolved variant is substituted in the fixed order and pushed
  onto \<^verbatim>\<open>blocks\<close>; a selection that did not resolve is passed over; the first
  substitution that throws ends the composition.
\<close>

fun substituteBlocks ::
  "variables \<Rightarrow> SubstitutionOptions \<Rightarrow> selection list \<Rightarrow> error + string list" where
  "substituteBlocks vars opts [] = Inr []"
| "substituteBlocks vars opts (None # sels) = substituteBlocks vars opts sels"
| "substituteBlocks vars opts (Some (block, variant) # sels) =
     (case substitute (text_variant variant) vars opts of
        Inl e \<Rightarrow> Inl e
      | Inr t \<Rightarrow>
          (case substituteBlocks vars opts sels of
             Inl e \<Rightarrow> Inl e
           | Inr ts \<Rightarrow> Inr (t # ts)))"

text \<open>\<^verbatim>\<open>blocks.join('\n\n')\<close>.\<close>

fun join :: "string \<Rightarrow> string list \<Rightarrow> string" where
  "join sep [] = []"
| "join sep [x] = x"
| "join sep (x # y # ys) = x @ sep @ join sep (y # ys)"

definition blankLine :: string where
  "blankLine = [CHR 0x0A, CHR 0x0A]"

definition usedId :: "selection \<Rightarrow> string option" where
  "usedId sel = map_option (\<lambda>(block, variant). id_block block) sel"

definition blocksUsedOf :: "SelectedBlocks \<Rightarrow> BlocksUsed" where
  "blocksUsedOf sel =
     (let valuePropsUsed = List.map_filter usedId (valueProps_sel sel) in
      \<lparr> greeting_used = usedId (greeting_sel sel),
        opener_used = usedId (opener_sel sel),
        intention_used = usedId (intention_sel sel),
        eventInfo_used = usedId (eventInfo_sel sel),
        valueProps_used = (if valuePropsUsed \<noteq> [] then Some valuePropsUsed else None),
        cta_used = usedId (cta_sel sel),
        closing_used = usedId (closing_sel sel) \<rparr>)"

text \<open>
  \<^verbatim>\<open>composeEmail\<close>. The guard \<^verbatim>\<open>if (!audienceConfig)\<close> throws when the lookup
  gives undefined; an own entry and an inherited member are both truthy and pass it.
  \<open>composeFound\<close> is the function after the guard.
\<close>

definition composeFound ::
  "blockFiles \<Rightarrow> Composer \<Rightarrow> ContactData \<Rightarrow> EmailCompositionOptions \<Rightarrow> AudienceConfig option
     \<Rightarrow> Composer \<times> (error + ComposedEmail)" where
  "composeFound files cmp contact options audienceConfig =
     (let audienceType = audience_type contact;
          tone = orUndefined (tone_option options) (map_option tone_config audienceConfig);
          vars = prepareVariables (eventDetails cmp) contact options
      in case selectAll files (blockSelector cmp) audienceConfig options tone of
           (bs, sel) \<Rightarrow>
             (cmp\<lparr> blockSelector := bs \<rparr>,
              case substituteBlocks vars (asSubstitutionOptions options)
                     (selectionList sel) of
                Inl e \<Rightarrow> Inl e
              | Inr texts \<Rightarrow>
                  (case generateSubject cmp audienceType contact of
                     Inl e \<Rightarrow> Inl e
                   | Inr subj \<Rightarrow>
                       (let b = join blankLine texts in
                        Inr \<lparr> subject = subj, body = b,
                              metadata =
                                \<lparr> audience_type_used = audienceType, tone_used = tone,
                                  blocks_used = blocksUsedOf sel,
                                  variables_used = extractPlaceholders b \<rparr> \<rparr>))))"

definition composeEmail ::
  "blockFiles \<Rightarrow> Composer \<Rightarrow> ContactData \<Rightarrow> EmailCompositionOptions
     \<Rightarrow> Composer \<times> (error + ComposedEmail)" where
  "composeEmail files cmp contact options =
     (case objectGet (audienceConfigs cmp) (audience_type contact) of
        Absent \<Rightarrow>
          (cmp, Inl (Error (''Unknown audience type: '' @ audience_type contact)))
      | Own audienceConfig \<Rightarrow> composeFound files cmp contact options (Some audienceConfig)
      | Inherited \<Rightarrow> composeFound files cmp contact options None)"

section \<open>The batch driver\<close>

record BatchEmailResult =
  contact_result :: ContactData
  email_result :: ComposedEmail
  error_result :: "error option"

text \<open>The composed email recorded for a contact whose composition threw.\<close>

definition emptyEmail :: "ContactData \<Rightarrow> ComposedEmail" where
  "emptyEmail contact =
     \<lparr> subject = SubjectText [], body = [],
       metadata =
         \<lparr> audience_type_used = audience_type contact, tone_used = Some ''casual'',
           blocks_used =
             \<lparr> greeting_used = None, opener_used = None, intention_used = None,
               eventInfo_used = None, valueProps_used = None, cta_used = None,
               closing_used = None \<rparr>,
           variables_used = [] \<rparr> \<rparr>"

text \<open>\<^verbatim>\<open>perContactOptions?.get(contact.email) || globalOptions\<close>.\<close>

definition effectiveOptions ::
  "EmailCompositionOptions \<Rightarrow> (string \<rightharpoonup> EmailCompositionOptions) option \<Rightarrow> ContactData
     \<Rightarrow> EmailCompositionOptions" where
  "effectiveOptions globalOptions perContactOptions contact =
     (case perContactOptions of
        None \<Rightarrow> globalOptions
      | Some m \<Rightarrow> (case m (email contact) of Some options \<Rightarrow> options | None \<Rightarrow> globalOptions))"

text \<open>One turn of the loop of \<^verbatim>\<open>composeBatch\<close>: the try and its catch.\<close>

definition composeOne ::
  "blockFiles \<Rightarrow> Composer \<Rightarrow> EmailCompositionOptions
     \<Rightarrow> (string \<rightharpoonup> EmailCompositionOptions) option \<Rightarrow> ContactData
     \<Rightarrow> Composer \<times> BatchEmailResult" where
  "composeOne files cmp globalOptions perContactOptions contact =
     (case composeEmail files cmp contact
             (effectiveOptions globalOptions perContactOptions contact) of
        (cmp', Inr composed) \<Rightarrow>
          (cmp', \<lparr> contact_result = contact, email_result = composed, error_result = None \<rparr>)
      | (cmp', Inl e) \<Rightarrow>
          (cmp', \<lparr> contact_result = contact, email_result = emptyEmail contact,
                   error_result = Some e \<rparr>))"

fun composeBatch ::
  "blockFiles \<Rightarrow> Composer \<Rightarrow> ContactData list \<Rightarrow> EmailCompositionOptions
     \<Rightarrow> (string \<rightharpoonup> EmailCompositionOptions) option
     \<Rightarrow> Composer \<times> BatchEmailResult list" where
  "composeBatch files cmp [] globalOptions perContactOptions = (cmp, [])"
| "composeBatch files cmp (c # contacts) globalOptions perContactOptions =
     (case composeOne files cmp globalOptions perContactOptions c of
        (cmp', result) \<Rightarrow>
          (case composeBatch files cmp' contacts globalOptions perContactOptions of
             (cmp'', results) \<Rightarrow> (cmp'', result # results)))"

section \<open>Templates whose braces all belong to tokens\<close>





section \<open>Example data\<close>

text \<open>
  A small composer in the shape of the shipped configuration: one audience type with a
  subject template, a formal greeting with two variants, a call to action found by its tag,
  and a closing whose second variant has the empty identifier. The contacts and options
  below are the concrete inputs of the evaluated examples; among them a contact whose
  audience type is the name of an inherited member, and a variable map with an own
  property named \<^verbatim>\<open>hasOwnProperty\<close>.
\<close>

definition exGreeting :: EmailBlock where
  "exGreeting =
     \<lparr> id_block = ''greeting-formal'', category = Greeting, tags = [''title-known''],
       tone_block = Some ''formal'',
       variants =
         [ \<lparr> id_variant = ''formal-title-lastname'', text_variant = ''Dear {{title}} {{last_name}},'',
             placeholders = Some [''title'', ''last_name''], use_case = None \<rparr>,
           \<lparr> id_variant = ''formal-full-name'', text_variant = ''Dear {{first_name}} {{last_name}},'',
             placeholders = None, use_case = None \<rparr> ] \<rparr>"

definition exCta :: EmailBlock where
  "exCta =
     \<lparr> id_block = ''cta-buy-ticket'', category = Cta, tags = [''buy-ticket''],
       tone_block = None,
       variants =
         [ \<lparr> id_variant = ''ticket-standard'', text_variant = ''Tickets: {{ticket_url}} (until {{deadline}})'',
             placeholders = None, use_case = None \<rparr> ] \<rparr>"

definition exSelector :: BlockSelector where
  "exSelector =
     \<lparr> blocks = [''greeting-formal'' \<mapsto> exGreeting, ''cta-buy-ticket'' \<mapsto> exCta],
       blocksByCategory = [Greeting \<mapsto> [exGreeting], Cta \<mapsto> [exCta]] \<rparr>"

definition exVcs :: AudienceConfig where
  "exVcs =
     \<lparr> name_config = ''Venture Capitalists & Investors'', tone_config = ''formal'',
       intention = ''invite-attend'', valueProps = [''deal-flow'', ''networking''],
       cta = ''buy-ticket'', eventInfo = ''detailed'', tags_config = [''investor'', ''formal''],
       subjectTemplate = Some ''{{event_name}}: apply by {{deadline}}'' \<rparr>"

definition exEvent :: EventDetails where
  "exEvent =
     \<lparr> name_event = Some ''Summit'', date_event = None, time_event = None,
       location_event = None, website_event = None, ticket_url = Some ''t.example'',
       contest_url = None, press_kit_url = None \<rparr>"

definition exComposer :: Composer where
  "exComposer =
     \<lparr> audienceConfigs = [''vcs'' \<mapsto> exVcs], eventDetails = exEvent, blockSelector = exSelector \<rparr>"

definition exContact :: ContactData where
  "exContact =
     \<lparr> audience_type = ''vcs'', email = ''a@x.com'',
       properties = [(''first_name'', JString ''Andreas''), (''last_name'', JString ''Mueller''),
                     (''title'', JString ''Dr.'')] \<rparr>"

definition exOptions :: EmailCompositionOptions where
  "exOptions = emptyOptions \<lparr> customVariables := Some [''deadline'' \<mapsto> ''June 15''] \<rparr>"

definition exComposed :: ComposedEmail where
  "exComposed =
     \<lparr> subject = SubjectText ''Summit: apply by '',
       body = ''Dear Dr. Mueller,'' @ blankLine @ ''Tickets: t.example (until June 15)'',
       metadata =
         \<lparr> audience_type_used = ''vcs'', tone_used = Some ''formal'',
           blocks_used =
             \<lparr> greeting_used = Some ''greeting-formal'', opener_used = None,
               intention_used = None, eventInfo_used = None, valueProps_used = None,
               cta_used = Some ''cta-buy-ticket'', closing_used = None \<rparr>,
           variables_used = [] \<rparr> \<rparr>"

definition exStranger :: ContactData where
  "exStranger = \<lparr> audience_type = ''aliens'', email = ''b@y.org'', properties = [] \<rparr>"

definition exClosing :: EmailBlock where
  "exClosing =
     \<lparr> id_block = ''closing-casual'', category = Closing, tags = [''casual''],
       tone_block = Some ''casual'',
       variants =
         [ \<lparr> id_variant = ''cheers'', text_variant = ''Cheers, {{sender_name}}'',
             placeholders = None, use_case = None \<rparr>,
           \<lparr> id_variant = [], text_variant = ''Best, {{sender_name}}'',
             placeholders = None, use_case = None \<rparr> ] \<rparr>"

definition exClosingSelector :: BlockSelector where
  "exClosingSelector =
     \<lparr> blocks = [''closing/casual'' \<mapsto> exClosing], blocksByCategory = [Closing \<mapsto> [exClosing]] \<rparr>"

definition exBusy :: ContactData where
  "exBusy =
     \<lparr> audience_type = ''vcs'', email = ''c@z.net'',
       properties = [(''deadline'', JString ''May 1''), (''sector'', JString [])] \<rparr>"

definition exHeir :: ContactData where
  "exHeir =
     \<lparr> audience_type = ''constructor'', email = ''e@v.dev'',
       properties = [(''last_name'', JString ''Mueller'')] \<rparr>"

definition exHeirComposed :: ComposedEmail where
  "exHeirComposed =
     \<lparr> subject = SubjectMember ''constructor'',
       body = ''Tickets: t.example (until June 15)'',
       metadata =
         \<lparr> audience_type_used = ''constructor'', tone_used = None,
           blocks_used =
             \<lparr> greeting_used = None, opener_used = None, intention_used = None,
               eventInfo_used = None, valueProps_used = None,
               cta_used = Some ''cta-buy-ticket'', closing_used = None \<rparr>,
           variables_used = [] \<rparr> \<rparr>"

definition exShadowed :: variables where
  "exShadowed = [''last_name'' \<mapsto> JString ''Mueller'', ''hasOwnProperty'' \<mapsto> JString ''x'']"




section \<open>Properties of the substitution engine\<close>

lemma matchToken_decomp:
  "matchToken s = Some (name, rest) \<Longrightarrow>
     s = ''{{'' @ name @ ''}}'' @ rest \<and> name \<noteq> [] \<and> (\<forall>c\<in>set name. isWordChar c)"
proof -
  assume m: "matchToken s = Some (name, rest)"
  then obtain t where s: "s = CHR ''{'' # CHR ''{'' # t"
    by (cases s; cases "tl s") (auto simp: matchToken_def split: if_splits)
  from m s have n: "name = takeWhile isWordChar t" and ne: "name \<noteq> []"
    and tk: "take 2 (dropWhile isWordChar t) = ''}}''" and r: "rest = drop 2 (dropWhile isWordChar t)"
    by (auto simp: matchToken_def Let_def split: if_splits)
  have "t = takeWhile isWordChar t @ dropWhile isWordChar t" by simp
  also have "dropWhile isWordChar t = take 2 (dropWhile isWordChar t) @ drop 2 (dropWhile isWordChar t)"
    by simp
  finally have "t = name @ ''}}'' @ rest" using n tk r by simp
  moreover have "\<forall>c\<in>set name. isWordChar c" using n by (auto dest: set_takeWhileD)
  ultimately show ?thesis using s ne by simp
qed

lemma brace_not_word: "\<not> isWordChar CHR ''}''" "\<not> isWordChar CHR ''{''"
  by (simp_all add: isWordChar_def)

lemma matchToken_token:
  assumes "name \<noteq> []" "\<forall>c\<in>set name. isWordChar c"
  shows "matchToken (''{{'' @ name @ ''}}'' @ post) = Some (name, post)"
proof -
  have "takeWhile isWordChar (name @ ''}}'' @ post) = name"
    using assms(2) by (simp add: takeWhile_append2 brace_not_word)
  moreover have "dropWhile isWordChar (name @ ''}}'' @ post) = ''}}'' @ post"
    using assms(2) by (simp add: dropWhile_append2 brace_not_word)
  ultimately show ?thesis using assms(1) by (simp add: matchToken_def)
qed


lemma matchToken_append:
  assumes "matchToken s = Some (name, rest)"
  shows "matchToken (s @ x) = Some (name, rest @ x)"
proof -
  from matchToken_decomp [OF assms]
  have s: "s = ''{{'' @ name @ ''}}'' @ rest" and n: "name \<noteq> []" "\<forall>c\<in>set name. isWordChar c"
    by simp_all
  have "s @ x = ''{{'' @ name @ ''}}'' @ (rest @ x)" using s by simp
  then show ?thesis using matchToken_token [OF n, of "rest @ x"] by simp
qed

lemma matchToken_before_brace:
  assumes "matchToken pre = None" "pre \<noteq> []"
  shows "matchToken (pre @ CHR ''{'' # CHR ''{'' # x) = None"
proof (cases pre)
  case Nil
  with assms(2) show ?thesis by simp
next
  case (Cons c1 p1)
  show ?thesis
  proof (cases p1)
    case Nil
    with Cons show ?thesis by (simp add: matchToken_def brace_not_word)
  next
    case (Cons c2 t)
    note p1 = Cons
    let ?X = "CHR ''{'' # CHR ''{'' # x"
    show ?thesis
    proof (cases "c1 = CHR ''{'' \<and> c2 = CHR ''{''")
      case False
      with \<open>pre = c1 # p1\<close> p1 show ?thesis by (auto simp: matchToken_def)
    next
      case True
      show ?thesis
      proof (cases "\<forall>c\<in>set t. isWordChar c")
        case True
        then have "dropWhile isWordChar (t @ ?X) = ?X"
          by (simp add: dropWhile_append2 brace_not_word)
        with \<open>pre = c1 # p1\<close> p1 show ?thesis by (simp add: matchToken_def Let_def)
      next
        case False
        then obtain y where y: "y \<in> set t" "\<not> isWordChar y" by blast
        have tw: "takeWhile isWordChar (t @ ?X) = takeWhile isWordChar t"
          using y by (rule takeWhile_append1)
        have dw: "dropWhile isWordChar (t @ ?X) = dropWhile isWordChar t @ ?X"
          using y by (rule dropWhile_append1)
        have dne: "dropWhile isWordChar t \<noteq> []"
          using y by (auto simp: dropWhile_eq_Nil_conv)
        from assms(1) \<open>pre = c1 # p1\<close> p1 True
        have none: "takeWhile isWordChar t = [] \<or> take 2 (dropWhile isWordChar t) \<noteq> ''}}''"
          by (auto simp: matchToken_def Let_def split: if_splits)
        have "takeWhile isWordChar t = [] \<or> take 2 (dropWhile isWordChar t @ ?X) \<noteq> ''}}''"
        proof (cases "dropWhile isWordChar t")
          case Nil
          with dne show ?thesis by simp
        next
          case (Cons d ds)
          then show ?thesis using none by (cases ds) auto
        qed
        with \<open>pre = c1 # p1\<close> p1 True tw dw show ?thesis
          by (simp add: matchToken_def Let_def)
      qed
    qed
  qed
qed

lemma replaceTokens_token:
  assumes n: "name \<noteq> []" "\<forall>c\<in>set name. isWordChar c"
  shows "replaceTokens f (pre @ ''{{'' @ name @ ''}}'' @ post) =
     (case replaceTokens f pre of
        Inl e \<Rightarrow> Inl e
      | Inr a \<Rightarrow>
          (case f (''{{'' @ name @ ''}}'') name of
             Inl e \<Rightarrow> Inl e
           | Inr r \<Rightarrow>
               (case replaceTokens f post of
                  Inl e \<Rightarrow> Inl e
                | Inr b \<Rightarrow> Inr (a @ r @ b))))"
proof (induction f pre rule: replaceTokens.induct)
  case (1 f)
  have "matchToken (CHR ''{'' # CHR ''{'' # name @ ''}}'' @ post) = Some (name, post)"
    using matchToken_token [OF n, of post] by simp
  then show ?case by (simp split: sum.splits)
next
  case (2 f c cs)
  show ?case
  proof (cases "matchToken (c # cs)")
    case None
    then have "matchToken ((c # cs) @ CHR ''{'' # CHR ''{'' # (name @ ''}}'' @ post)) = None"
      by (rule matchToken_before_brace) simp
    then have m: "matchToken (c # cs @ ''{{'' @ name @ ''}}'' @ post) = None" by simp
    note ih = 2(1) [OF None]
    have "replaceTokens f ((c # cs) @ ''{{'' @ name @ ''}}'' @ post) =
        (case replaceTokens f (cs @ ''{{'' @ name @ ''}}'' @ post) of
           Inl e \<Rightarrow> Inl e | Inr out \<Rightarrow> Inr (c # out))"
      using m by simp
    also have "\<dots> = (case replaceTokens f (c # cs) of
        Inl e \<Rightarrow> Inl e
      | Inr a \<Rightarrow>
          (case f (''{{'' @ name @ ''}}'') name of
             Inl e \<Rightarrow> Inl e
           | Inr r \<Rightarrow>
               (case replaceTokens f post of
                  Inl e \<Rightarrow> Inl e
                | Inr b \<Rightarrow> Inr (a @ r @ b))))"
      unfolding ih using None by (simp split: sum.splits)
    finally show ?thesis .
  next
    case (Some a)
    obtain nm rest where a: "a = (nm, rest)" by (cases a)
    from Some a have "matchToken (c # cs) = Some (nm, rest)" by simp
    then have "matchToken ((c # cs) @ ''{{'' @ name @ ''}}'' @ post)
        = Some (nm, rest @ ''{{'' @ name @ ''}}'' @ post)"
      by (rule matchToken_append)
    then have m: "matchToken (c # cs @ ''{{'' @ name @ ''}}'' @ post)
        = Some (nm, rest @ ''{{'' @ name @ ''}}'' @ post)" by simp
    show ?thesis
    proof (cases "f (''{{'' @ nm @ ''}}'') nm")
      case (Inl e)
      with Some a m show ?thesis by simp
    next
      case (Inr r)
      note ih = 2(2) [OF Some a [symmetric] Inr]
      have "replaceTokens f ((c # cs) @ ''{{'' @ name @ ''}}'' @ post) =
          (case replaceTokens f (rest @ ''{{'' @ name @ ''}}'' @ post) of
             Inl e \<Rightarrow> Inl e | Inr out \<Rightarrow> Inr (r @ out))"
        using m Inr by simp
      also have "\<dots> = (case replaceTokens f (c # cs) of
          Inl e \<Rightarrow> Inl e
        | Inr a \<Rightarrow>
            (case f (''{{'' @ name @ ''}}'') name of
               Inl e \<Rightarrow> Inl e
             | Inr r \<Rightarrow>
                 (case replaceTokens f post of
                    Inl e \<Rightarrow> Inl e
                  | Inr b \<Rightarrow> Inr (a @ r @ b))))"
        unfolding ih using Some a Inr by (simp split: sum.splits)
      finally show ?thesis .
    qed
  qed
qed

lemma scanNames_Nil: "scanNames s m = [] \<Longrightarrow> m = []"
proof (induction s m rule: scanNames.induct)
  case (1 m)
  then show ?case by simp
next
  case (2 c cs m)
  show ?case
  proof (cases "matchToken (c # cs)")
    case None
    with 2 show ?thesis by simp
  next
    case (Some a)
    obtain nm rest where a: "a = (nm, rest)" by (cases a)
    from 2(3) Some a
    have "scanNames rest (if nm \<in> set m then m else m @ [nm]) = []" by simp
    then have "(if nm \<in> set m then m else m @ [nm]) = []"
      by (rule 2(2) [OF Some a [symmetric]])
    then show ?thesis by (auto split: if_splits)
  qed
qed

lemma scanNames_no_match:
  "scanNames s m = [] \<Longrightarrow> replaceTokens f s = Inr s"
proof (induction s m rule: scanNames.induct)
  case (1 m)
  then show ?case by simp
next
  case (2 c cs m)
  show ?case
  proof (cases "matchToken (c # cs)")
    case None
    with 2 show ?thesis by simp
  next
    case (Some a)
    obtain nm rest where a: "a = (nm, rest)" by (cases a)
    from 2(3) Some a
    have "scanNames rest (if nm \<in> set m then m else m @ [nm]) = []" by simp
    then have "(if nm \<in> set m then m else m @ [nm]) = []" by (rule scanNames_Nil)
    then show ?thesis by (auto split: if_splits)
  qed
qed

lemma replaceTokens_keep:
  "(\<And>name. f (''{{'' @ name @ ''}}'') name = Inr (''{{'' @ name @ ''}}'')) \<Longrightarrow>
     replaceTokens f s = Inr s"
proof (induction f s rule: replaceTokens.induct)
  case (1 f)
  show ?case by simp
next
  case (2 f c cs)
  show ?case
  proof (cases "matchToken (c # cs)")
    case None
    with 2 show ?thesis by simp
  next
    case (Some a)
    obtain nm rest where a: "a = (nm, rest)" by (cases a)
    from matchToken_decomp Some a have d: "c # cs = ''{{'' @ nm @ ''}}'' @ rest" by blast
    have "replaceTokens f rest = Inr rest"
      using 2(2) [OF Some a [symmetric] 2(3)] 2(3) by simp
    with Some a 2(3) [of nm] d show ?thesis by simp
  qed
qed

text \<open>
  Claim C9. \<^verbatim>\<open>substitute\<close> is the identity on a text without placeholder tokens:
  when \<^verbatim>\<open>extractPlaceholders\<close> finds no name in the text, the substitution returns
  the text itself, for every variable map and all options. And with the empty variable map
  and \<^verbatim>\<open>keepPlaceholders\<close> set (strict mode left at its default), every text comes
  back unchanged.
\<close>

theorem substitute_identity:
  "(extractPlaceholders t = [] \<longrightarrow> substitute t v opts = Inr t) \<and>
   substitute t Map.empty \<lparr> strict = None, keepPlaceholders = Some True, warnOnMissing = w \<rparr> = Inr t"
proof
  show "extractPlaceholders t = [] \<longrightarrow> substitute t v opts = Inr t"
    unfolding extractPlaceholders_def substitute_def by (blast intro: scanNames_no_match)
next
  show "substitute t Map.empty \<lparr> strict = None, keepPlaceholders = Some True, warnOnMissing = w \<rparr> = Inr t"
    unfolding substitute_def
    by (rule replaceTokens_keep) (simp add: replaceCallback_def)
qed

theorem substitute_identity_witness:
  "extractPlaceholders ''Hi {a} {{}} {{b-c}}'' = [] \<and>
   substitute ''Hi {a} {{}} {{b-c}}'' (Map.empty(''a'' \<mapsto> JString ''x'')) noOptions
     = Inr ''Hi {a} {{}} {{b-c}}''"
proof -
  have h: "extractPlaceholders ''Hi {a} {{}} {{b-c}}'' = []"
    by (simp add: extractPlaceholders_def matchToken_def isWordChar_def)
  from substitute_identity [of "''Hi {a} {{}} {{b-c}}''" "Map.empty(''a'' \<mapsto> JString ''x'')" noOptions] h
  have "substitute ''Hi {a} {{}} {{b-c}}'' (Map.empty(''a'' \<mapsto> JString ''x'')) noOptions
     = Inr ''Hi {a} {{}} {{b-c}}''" by blast
  with h show ?thesis by blast
qed

text \<open>
  The replacement of a token, for a variable map without an own property named
  \<^verbatim>\<open>hasOwnProperty\<close>. Every occurrence of a token \<^verbatim>\<open>{{name}}\<close>, with a name of
  one or more characters from \<^verbatim>\<open>[A-Za-z0-9_]\<close>, is replaced wherever it stands in
  the text: the result is the substituted text before it, the replacement, and the
  substituted text after it. The replacement is the string form of the value when the name
  is in the map with a value other than null and undefined, the empty string when the value
  is null or undefined; when the name is absent, strict mode ends the whole substitution
  with the error \<^verbatim>\<open>Missing required variable: name\<close>, and otherwise the token becomes
  the empty string, or stays as it is when \<^verbatim>\<open>keepPlaceholders\<close> is set. An error
  raised by an earlier token of the text comes first.
\<close>

lemma substitute_replaces_token:
  assumes "name \<noteq> []" and "\<forall>c\<in>set name. isWordChar c"
      and "vars ''hasOwnProperty'' = None"
  shows "substitute (pre @ ''{{'' @ name @ ''}}'' @ post) vars opts =
     (case substitute pre vars opts of
        Inl e \<Rightarrow> Inl e
      | Inr a \<Rightarrow>
          (case vars name of
             Some v \<Rightarrow>
               (case substitute post vars opts of
                  Inl e \<Rightarrow> Inl e
                | Inr b \<Rightarrow>
                    Inr (a @ (if v = JNull \<or> v = JUndefined then [] else jsString v) @ b))
           | None \<Rightarrow>
               if strict opts = Some True
               then Inl (Error (''Missing required variable: '' @ name))
               else
                 (case substitute post vars opts of
                    Inl e \<Rightarrow> Inl e
                  | Inr b \<Rightarrow>
                      Inr (a @ (if keepPlaceholders opts = Some True
                                then ''{{'' @ name @ ''}}'' else []) @ b))))"
  unfolding substitute_def replaceTokens_token [OF assms(1,2)]
  using assms(3) by (simp add: replaceCallback_def split: sum.splits option.splits)

lemma substitute_replaces_token_example:
  "substitute ''Dear {{last_name}},'' (Map.empty(''last_name'' \<mapsto> JString ''Mueller'')) noOptions
     = Inr ''Dear Mueller,''"
proof -
  have w: "\<forall>c\<in>set ''last_name''. isWordChar c" by (simp add: isWordChar_def)
  have ne: "''last_name'' \<noteq> []" by simp
  have h: "(Map.empty(''last_name'' \<mapsto> JString ''Mueller'')) ''hasOwnProperty'' = None" by simp
  have p: "substitute ''Dear '' (Map.empty(''last_name'' \<mapsto> JString ''Mueller'')) noOptions = Inr ''Dear ''"
    by (simp add: substitute_def matchToken_def)
  have q: "substitute '','' (Map.empty(''last_name'' \<mapsto> JString ''Mueller'')) noOptions = Inr '',''"
    by (simp add: substitute_def matchToken_def)
  from substitute_replaces_token [where name = "''last_name''" and pre = "''Dear ''"
      and post = "'',''" and opts = noOptions
      and vars = "Map.empty(''last_name'' \<mapsto> JString ''Mueller'')", OF ne w h]
  show ?thesis by (simp add: p q)
qed

text \<open>
  Claim C3 says that for every text and every variable map a token whose name is in the
  map is replaced by the string form of its value. The code does not do so for a map with
  an own property named \<^verbatim>\<open>hasOwnProperty\<close>: there
  \<^verbatim>\<open>variables.hasOwnProperty(varName)\<close> calls that property's value, and the first
  token of the text ends the substitution with a \<^verbatim>\<open>TypeError\<close>, although the
  token's name is in the map. Such a map reaches the substitution from a contact that has
  a field of that name.
\<close>

theorem substitute_shadowed_hasOwnProperty:
  "exShadowed ''last_name'' = Some (JString ''Mueller'') \<and>
   substitute ''Dear {{last_name}},'' exShadowed noOptions
     = Inl (TypeError ''variables.hasOwnProperty is not a function'') \<and>
   prepareVariables exEvent
       \<lparr> audience_type = ''vcs'', email = ''f@u.org'',
         properties = [(''hasOwnProperty'', JString ''x'')] \<rparr> emptyOptions ''hasOwnProperty''
     = Some (JString ''x'')"
  by (simp add: exShadowed_def substitute_def matchToken_def isWordChar_def replaceCallback_def
        prepareVariables_def additionalFields_def objectKeys_def contactGet_def map_add_def)

section \<open>Properties of the selector, the variable map and the composer\<close>














lemma find_first:
  "i < length xs \<Longrightarrow> P (xs ! i) \<Longrightarrow> \<forall>j<i. \<not> P (xs ! j) \<Longrightarrow> find P xs = Some (xs ! i)"
  by (auto simp: find_Some_iff)

lemma find_none: "\<forall>x\<in>set xs. \<not> P x \<Longrightarrow> find P xs = None"
  by (simp add: find_None_iff)

lemma loadBlock_None: "loadBlock files bs blockId = (bs', None) \<Longrightarrow> bs' = bs"
  by (auto simp: loadBlock_def Let_def split: option.splits)

lemma selectVariant_first:
  "selectVariant b None = Some v \<Longrightarrow> variants b \<noteq> [] \<and> v = hd (variants b)"
  by (auto simp: selectVariant_def split: list.splits)

lemma selectBlock_first:
  "selectBlock files bs cat sel None = (bs', Some (b, v)) \<Longrightarrow>
     variants b \<noteq> [] \<and> v = hd (variants b)"
  by (auto simp: selectBlock_def split: prod.splits option.splits dest: selectVariant_first)

lemma selectBlockWith_first:
  "selectBlockWith files bs cat sel None = (bs', Some (b, v)) \<Longrightarrow>
     variants b \<noteq> [] \<and> v = hd (variants b)"
proof (cases sel)
  case None
  assume "selectBlockWith files bs cat sel None = (bs', Some (b, v))"
  with None show ?thesis
    by (auto simp: selectBlockWith_def selectBlockUndefined_def
          split: prod.splits option.splits dest: selectVariant_first)
next
  case (Some s)
  assume "selectBlockWith files bs cat sel None = (bs', Some (b, v))"
  with Some show ?thesis by (auto simp: selectBlockWith_def dest: selectBlock_first)
qed

text \<open>
  A property of every selection that \<open>selectAll\<close> makes follows from the same property
  of a single \<^verbatim>\<open>selectBlock\<close> call, which may rest on an invariant of the selector.
\<close>

lemma selectBlocks_invariant:
  assumes step: "\<And>bs cat sel bs' r. I bs \<Longrightarrow> selectBlockWith files bs cat sel None = (bs', r)
      \<Longrightarrow> I bs' \<and> (\<forall>x. r = Some x \<longrightarrow> Q x)"
  shows "I bs \<Longrightarrow> selectBlocks files bs cat sels = (bs', rs) \<Longrightarrow>
     I bs' \<and> (\<forall>x. Some x \<in> set rs \<longrightarrow> Q x)"
proof (induction sels arbitrary: bs bs' rs)
  case Nil
  then show ?case by simp
next
  case (Cons s sels)
  obtain bs1 r where one: "selectBlock files bs cat s None = (bs1, r)"
    by (cases "selectBlock files bs cat s None")
  obtain bs2 rs2 where rest: "selectBlocks files bs1 cat sels = (bs2, rs2)"
    by (cases "selectBlocks files bs1 cat sels")
  from one have "selectBlockWith files bs cat (Some s) None = (bs1, r)"
    by (simp add: selectBlockWith_def)
  from step [OF Cons.prems(1) this] have i1: "I bs1" and q1: "\<forall>x. r = Some x \<longrightarrow> Q x"
    by simp_all
  from Cons.IH [OF i1 rest] have i2: "I bs2" and q2: "\<forall>x. Some x \<in> set rs2 \<longrightarrow> Q x"
    by simp_all
  from Cons.prems(2) one rest have "bs' = bs2" "rs = r # rs2" by simp_all
  with i2 q1 q2 show ?case by auto
qed

lemma selectAll_invariant:
  assumes step: "\<And>bs cat sel bs' r. I bs \<Longrightarrow> selectBlockWith files bs cat sel None = (bs', r)
      \<Longrightarrow> I bs' \<and> (\<forall>x. r = Some x \<longrightarrow> Q x)"
      and start: "I bs"
      and mem: "Some x \<in> set (selectionList (snd (selectAll files bs cfg options tone)))"
  shows "Q x"
proof -
  let ?g = "overrideOrUndefined options greeting_override tone"
  let ?o = "overrideOrUndefined options opener_override (map_option intention cfg)"
  let ?i = "overrideOrUndefined options intention_override (map_option intention cfg)"
  let ?e = "overrideOr options eventInfo_override (strOr (map_option eventInfo cfg) ''brief'')"
  let ?v = "case (case blockOverrides options of
                      Some ov \<Rightarrow> valueProps_override ov | None \<Rightarrow> None) of
                Some selectors \<Rightarrow> selectors
              | None \<Rightarrow>
                  (case map_option valueProps cfg of
                     Some selectors \<Rightarrow> selectors
                   | None \<Rightarrow> [])"
  let ?c = "overrideOrUndefined options cta_override (map_option cta cfg)"
  let ?l = "overrideOrUndefined options closing_override tone"
  obtain bs1 greeting where g: "selectBlockWith files bs Greeting ?g None = (bs1, greeting)"
    by (cases "selectBlockWith files bs Greeting ?g None")
  obtain bs2 opener where o: "selectBlockWith files bs1 Opener ?o None = (bs2, opener)"
    by (cases "selectBlockWith files bs1 Opener ?o None")
  obtain bs3 intent where i: "selectBlockWith files bs2 Intention ?i None = (bs3, intent)"
    by (cases "selectBlockWith files bs2 Intention ?i None")
  obtain bs4 evInfo where e: "selectBlock files bs3 EventInfo ?e None = (bs4, evInfo)"
    by (cases "selectBlock files bs3 EventInfo ?e None")
  obtain bs5 valProps where vp: "selectBlocks files bs4 ValueProposition ?v = (bs5, valProps)"
    by (cases "selectBlocks files bs4 ValueProposition ?v")
  obtain bs6 ctaSel where c: "selectBlockWith files bs5 Cta ?c None = (bs6, ctaSel)"
    by (cases "selectBlockWith files bs5 Cta ?c None")
  obtain bs7 closing where cl: "selectBlockWith files bs6 Closing ?l None = (bs7, closing)"
    by (cases "selectBlockWith files bs6 Closing ?l None")
  from e have e': "selectBlockWith files bs3 EventInfo (Some ?e) None = (bs4, evInfo)"
    by (simp add: selectBlockWith_def)
  from step [OF start g] have i1: "I bs1" and q1: "\<forall>x. greeting = Some x \<longrightarrow> Q x" by simp_all
  from step [OF i1 o] have i2: "I bs2" and q2: "\<forall>x. opener = Some x \<longrightarrow> Q x" by simp_all
  from step [OF i2 i] have i3: "I bs3" and q3: "\<forall>x. intent = Some x \<longrightarrow> Q x" by simp_all
  from step [OF i3 e'] have i4: "I bs4" and q4: "\<forall>x. evInfo = Some x \<longrightarrow> Q x" by simp_all
  from selectBlocks_invariant [where I = I and Q = Q, OF step i4 vp]
  have i5: "I bs5" and q5: "\<forall>x. Some x \<in> set valProps \<longrightarrow> Q x" by simp_all
  from step [OF i5 c] have i6: "I bs6" and q6: "\<forall>x. ctaSel = Some x \<longrightarrow> Q x" by simp_all
  from step [OF i6 cl] have q7: "\<forall>x. closing = Some x \<longrightarrow> Q x" by simp
  have "selectionList (snd (selectAll files bs cfg options tone)) =
      [greeting, opener, intent, evInfo] @ valProps @ [ctaSel, closing]"
    by (simp add: selectAll_def selectionList_def g o i e vp c cl)
  with mem consider "greeting = Some x" | "opener = Some x" | "intent = Some x"
    | "evInfo = Some x" | "Some x \<in> set valProps" | "ctaSel = Some x"
    | "closing = Some x" by auto
  then show ?thesis using q1 q2 q3 q4 q5 q6 q7 by cases blast+
qed

lemma selectAll_first:
  assumes "Some (b, v) \<in> set (selectionList (snd (selectAll files bs cfg options tone)))"
  shows "variants b \<noteq> [] \<and> v = hd (variants b)"
proof -
  have "(\<lambda>(b, v). variants b \<noteq> [] \<and> v = hd (variants b)) (b, v)"
  proof (rule selectAll_invariant [where I = "\<lambda>bs. True", OF _ _ assms])
    fix bs cat sel bs' r
    assume "selectBlockWith files bs cat sel None = (bs', r)"
    then show "True \<and> (\<forall>x. r = Some x \<longrightarrow> (case x of (b, v) \<Rightarrow> variants b \<noteq> [] \<and> v = hd (variants b)))"
      by (auto dest: selectBlockWith_first)
  qed simp
  then show ?thesis by simp
qed









lemma selectAll_variantPreferences:
  "selectAll files bs cfg (options\<lparr> variantPreferences := vp \<rparr>) tone = selectAll files bs cfg options tone"
  by (simp add: selectAll_def overrideOr_def overrideOrUndefined_def)

lemma prepareVariables_variantPreferences:
  "prepareVariables ev contact (options\<lparr> variantPreferences := vp \<rparr>) = prepareVariables ev contact options"
  by (simp add: prepareVariables_def)

lemma foldl_upd:
  "foldl (\<lambda>acc k. acc(k \<mapsto> g k)) m ks k' = (if k' \<in> set ks then Some (g k') else m k')"
  by (induction ks arbitrary: m) auto

lemma additionalFields_apply:
  "additionalFields contact k =
     (if k \<in> set (map fst (properties contact)) \<and>
         k \<notin> {''audience_type'', ''email'', ''first_name'', ''last_name''}
      then Some (contactGet contact k) else None)"
  unfolding additionalFields_def foldl_upd objectKeys_def by auto



lemma composeBatch_length:
  "length (snd (composeBatch files cmp contacts g p)) = length contacts"
proof (induction contacts arbitrary: cmp)
  case Nil
  show ?case by simp
next
  case (Cons c contacts)
  obtain cmp1 r where one: "composeOne files cmp g p c = (cmp1, r)" by (cases "composeOne files cmp g p c")
  obtain cmp2 rs where rest: "composeBatch files cmp1 contacts g p = (cmp2, rs)"
    by (cases "composeBatch files cmp1 contacts g p")
  from Cons.IH [of cmp1] rest have "length rs = length contacts" by simp
  with one rest show ?case by simp
qed

lemma composeOne_contact:
  "contact_result (snd (composeOne files cmp g p c)) = c"
  by (simp add: composeOne_def split: prod.splits sum.splits)

lemma composeBatch_contacts:
  "map contact_result (snd (composeBatch files cmp contacts g p)) = contacts"
proof (induction contacts arbitrary: cmp)
  case Nil
  show ?case by simp
next
  case (Cons c contacts)
  obtain cmp1 r where one: "composeOne files cmp g p c = (cmp1, r)" by (cases "composeOne files cmp g p c")
  obtain cmp2 rs where rest: "composeBatch files cmp1 contacts g p = (cmp2, rs)"
    by (cases "composeBatch files cmp1 contacts g p")
  from composeOne_contact [of files cmp g p c] one have "contact_result r = c" by simp
  moreover from Cons.IH [of cmp1] rest have "map contact_result rs = contacts" by simp
  ultimately show ?case using one rest by simp
qed

lemma composeBatch_nth:
  "i < length contacts \<Longrightarrow>
     snd (composeBatch files cmp contacts g p) ! i =
     snd (composeOne files (fst (composeBatch files cmp (take i contacts) g p)) g p (contacts ! i))"
proof (induction contacts arbitrary: cmp i)
  case Nil
  then show ?case by simp
next
  case (Cons c contacts)
  obtain cmp1 r where one: "composeOne files cmp g p c = (cmp1, r)" by (cases "composeOne files cmp g p c")
  obtain cmp2 rs where rest: "composeBatch files cmp1 contacts g p = (cmp2, rs)"
    by (cases "composeBatch files cmp1 contacts g p")
  show ?case
  proof (cases i)
    case 0
    with one rest show ?thesis by simp
  next
    case (Suc j)
    with Cons.prems have j: "j < length contacts" by simp
    obtain cmp3 rs3 where pre: "composeBatch files cmp1 (take j contacts) g p = (cmp3, rs3)"
      by (cases "composeBatch files cmp1 (take j contacts) g p")
    from Cons.IH [OF j, of cmp1] rest pre
    have "rs ! j = snd (composeOne files cmp3 g p (contacts ! j))" by simp
    with Suc one rest pre show ?thesis by simp
  qed
qed

lemma composeEmail_subject:
  assumes "composeEmail files cmp contact options = (cmp', Inr composed)"
  shows "generateSubject cmp (audience_type contact) contact = Inr (subject composed)"
  using assms
  by (auto simp: composeEmail_def composeFound_def Let_def
        split: property.splits prod.splits sum.splits)

section \<open>The examples, evaluated\<close>

lemma ex_select:
  "selectAll Map.empty exSelector (Some exVcs) exOptions (Some ''formal'') =
    (exSelector, \<lparr> greeting_sel = Some (exGreeting, hd (variants exGreeting)), opener_sel = None, intention_sel = None,
                  eventInfo_sel = None, valueProps_sel = [None, None], cta_sel = Some (exCta, hd (variants exCta)),
                  closing_sel = None \<rparr>)"
  by (simp add: selectAll_def selectBlockWith_def selectBlock_def resolveBlock_def loadBlock_def
       selectVariant_def getBlocksByCategory_def exSelector_def exVcs_def exOptions_def
       emptyOptions_def overrideOr_def overrideOrUndefined_def orUndefined_def strOr_def
       exGreeting_def exCta_def)

lemma ex_select_heir:
  "selectAll Map.empty exSelector None exOptions None =
    (exSelector, \<lparr> greeting_sel = None, opener_sel = None, intention_sel = None,
                  eventInfo_sel = None, valueProps_sel = [], cta_sel = Some (exCta, hd (variants exCta)),
                  closing_sel = None \<rparr>)"
  by (simp add: selectAll_def selectBlockWith_def selectBlockUndefined_def
       resolveBlockUndefined_def selectBlock_def resolveBlock_def loadBlock_def
       selectVariant_def getBlocksByCategory_def exSelector_def exOptions_def
       emptyOptions_def overrideOr_def overrideOrUndefined_def orUndefined_def strOr_def
       exGreeting_def exCta_def)

lemma ex_vars:
  "prepareVariables exEvent exContact exOptions ''title'' = Some (JString ''Dr.'')"
  "prepareVariables exEvent exContact exOptions ''last_name'' = Some (JString ''Mueller'')"
  "prepareVariables exEvent exContact exOptions ''ticket_url'' = Some (JString ''t.example'')"
  "prepareVariables exEvent exContact exOptions ''deadline'' = Some (JString ''June 15'')"
  "prepareVariables exEvent exContact exOptions ''event_name'' = Some (JString ''Summit'')"
  "prepareVariables exEvent exContact exOptions ''hasOwnProperty'' = None"
  "prepareVariables exEvent exContact emptyOptions ''event_name'' = Some (JString ''Summit'')"
  "prepareVariables exEvent exContact emptyOptions ''deadline'' = None"
  "prepareVariables exEvent exContact emptyOptions ''hasOwnProperty'' = None"
  by (simp_all add: prepareVariables_def additionalFields_def objectKeys_def contactGet_def
        objectOf_def namedVariables_def exContact_def exOptions_def emptyOptions_def exEvent_def
        orElse_def strOr_def map_add_def)

lemma ex_body:
  "substituteBlocks (prepareVariables exEvent exContact exOptions) (asSubstitutionOptions exOptions)
     [Some (exGreeting, hd (variants exGreeting)), None, None, None, None, None,
      Some (exCta, hd (variants exCta)), None]
   = Inr [''Dear Dr. Mueller,'', ''Tickets: t.example (until June 15)'']"
  by (simp add: exGreeting_def exCta_def substitute_def matchToken_def isWordChar_def
        replaceCallback_def ex_vars)

lemma ex_subject:
  "generateSubject exComposer ''vcs'' exContact = Inr (SubjectText ''Summit: apply by '')"
  by (simp add: generateSubject_def objectGet_def exComposer_def exVcs_def strOr_def exEvent_def
        substitute_def matchToken_def isWordChar_def replaceCallback_def
        ex_vars [unfolded exEvent_def] noOptions_def)

lemma ex_used:
  "blocksUsedOf \<lparr> greeting_sel = Some (exGreeting, hd (variants exGreeting)), opener_sel = None,
       intention_sel = None, eventInfo_sel = None, valueProps_sel = [None, None],
       cta_sel = Some (exCta, hd (variants exCta)), closing_sel = None \<rparr>
     = \<lparr> greeting_used = Some ''greeting-formal'', opener_used = None,
         intention_used = None, eventInfo_used = None, valueProps_used = None,
         cta_used = Some ''cta-buy-ticket'', closing_used = None \<rparr>"
  "blocksUsedOf \<lparr> greeting_sel = None, opener_sel = None,
       intention_sel = None, eventInfo_sel = None, valueProps_sel = [],
       cta_sel = Some (exCta, hd (variants exCta)), closing_sel = None \<rparr>
     = \<lparr> greeting_used = None, opener_used = None,
         intention_used = None, eventInfo_used = None, valueProps_used = None,
         cta_used = Some ''cta-buy-ticket'', closing_used = None \<rparr>"
  by (simp_all add: blocksUsedOf_def usedId_def List.map_filter_def exGreeting_def exCta_def)

lemma ex_composer:
  "objectGet (audienceConfigs exComposer) ''vcs'' = Own exVcs"
  "objectGet (audienceConfigs exComposer) ''constructor'' = Inherited"
  "objectGet (audienceConfigs exComposer) ''aliens'' = Absent"
  "eventDetails exComposer = exEvent" "blockSelector exComposer = exSelector"
  "exComposer\<lparr> blockSelector := exSelector \<rparr> = exComposer"
  by (simp_all add: exComposer_def objectGet_def objectPrototypeMembers_def)

lemma ex_tone:
  "orUndefined (tone_option exOptions) (Some (tone_config exVcs)) = Some ''formal''"
  "orUndefined (tone_option exOptions) None = None"
  by (simp_all add: orUndefined_def exOptions_def emptyOptions_def exVcs_def)

lemma ex_compose:
  "composeEmail Map.empty exComposer exContact exOptions = (exComposer, Inr exComposed)"
proof -
  have c: "audience_type exContact = ''vcs''" by (simp add: exContact_def)
  show ?thesis
    by (simp add: composeEmail_def composeFound_def Let_def c ex_composer ex_tone ex_select
          selectionList_def ex_body ex_subject ex_used exComposed_def
          extractPlaceholders_def matchToken_def blankLine_def del: substituteBlocks.simps)
qed

lemma ex_resolve_greeting:
  "resolveBlock Map.empty exSelector Greeting ''formal'' = (exSelector, Some exGreeting)"
  by (simp add: resolveBlock_def loadBlock_def getBlocksByCategory_def exSelector_def exGreeting_def)

lemma ex_heir_vars:
  "prepareVariables exEvent exHeir exOptions ''ticket_url'' = Some (JString ''t.example'')"
  "prepareVariables exEvent exHeir exOptions ''deadline'' = Some (JString ''June 15'')"
  "prepareVariables exEvent exHeir exOptions ''hasOwnProperty'' = None"
  by (simp_all add: prepareVariables_def additionalFields_def objectKeys_def contactGet_def
        objectOf_def namedVariables_def exHeir_def exOptions_def emptyOptions_def exEvent_def
        orElse_def strOr_def map_add_def)

lemma ex_heir_compose:
  "composeEmail Map.empty exComposer exHeir exOptions = (exComposer, Inr exHeirComposed)"
proof -
  have c: "audience_type exHeir = ''constructor''" by (simp add: exHeir_def)
  have b: "substituteBlocks (prepareVariables exEvent exHeir exOptions) (asSubstitutionOptions exOptions)
     [None, None, None, None, Some (exCta, hd (variants exCta)), None]
   = Inr [''Tickets: t.example (until June 15)'']"
    by (simp add: exCta_def substitute_def matchToken_def isWordChar_def
        replaceCallback_def ex_heir_vars)
  have st: "objectGet (objectOf (subjectTemplates ''Summit'')) ''constructor'' = Inherited"
    by (simp add: objectGet_def objectPrototypeMembers_def objectOf_def subjectTemplates_def)
  have s: "generateSubject exComposer ''constructor'' exHeir = Inr (SubjectMember ''constructor'')"
    by (simp add: generateSubject_def Let_def ex_composer strOr_def exEvent_def st)
  show ?thesis
    by (simp add: composeEmail_def composeFound_def Let_def c ex_composer ex_tone ex_select_heir
          selectionList_def b s ex_used exHeirComposed_def
          extractPlaceholders_def matchToken_def blankLine_def del: substituteBlocks.simps)
qed






section \<open>The batch driver and the composer\<close>

text \<open>
  Claim C1. For a list of N contacts \<^verbatim>\<open>composeBatch\<close> returns exactly N results, the
  i-th for the i-th contact. Each result is the outcome of \<^verbatim>\<open>composeEmail\<close> on its
  contact (run on the composer as the contacts before it left it), with the options
  registered for the contact's email address when there are some and the global options
  otherwise: the composed email without an error when the composition succeeds, and the
  error together with the empty email (empty subject and body) when it fails. A failure
  therefore neither ends the batch nor drops a later contact.
\<close>

theorem composeBatch_results:
  "length (snd (composeBatch files cmp contacts globalOptions perContactOptions)) = length contacts \<and>
   map contact_result (snd (composeBatch files cmp contacts globalOptions perContactOptions)) = contacts \<and>
   (\<forall>i < length contacts.
      let before = fst (composeBatch files cmp (take i contacts) globalOptions perContactOptions);
          c = contacts ! i;
          options = (case perContactOptions of
                       None \<Rightarrow> globalOptions
                     | Some m \<Rightarrow> (case m (email c) of Some own \<Rightarrow> own | None \<Rightarrow> globalOptions));
          r = snd (composeBatch files cmp contacts globalOptions perContactOptions) ! i
      in case snd (composeEmail files before c options) of
           Inr composed \<Rightarrow>
             r = \<lparr> contact_result = c, email_result = composed, error_result = None \<rparr>
         | Inl e \<Rightarrow>
             r = \<lparr> contact_result = c, email_result = emptyEmail c, error_result = Some e \<rparr> \<and>
             subject (emptyEmail c) = SubjectText [] \<and> body (emptyEmail c) = [])"
proof (intro conjI allI impI)
  show "length (snd (composeBatch files cmp contacts globalOptions perContactOptions)) = length contacts"
    by (rule composeBatch_length)
  show "map contact_result (snd (composeBatch files cmp contacts globalOptions perContactOptions)) = contacts"
    by (rule composeBatch_contacts)
  fix i assume i: "i < length contacts"
  show "let before = fst (composeBatch files cmp (take i contacts) globalOptions perContactOptions);
          c = contacts ! i;
          options = (case perContactOptions of
                       None \<Rightarrow> globalOptions
                     | Some m \<Rightarrow> (case m (email c) of Some own \<Rightarrow> own | None \<Rightarrow> globalOptions));
          r = snd (composeBatch files cmp contacts globalOptions perContactOptions) ! i
      in case snd (composeEmail files before c options) of
           Inr composed \<Rightarrow>
             r = \<lparr> contact_result = c, email_result = composed, error_result = None \<rparr>
         | Inl e \<Rightarrow>
             r = \<lparr> contact_result = c, email_result = emptyEmail c, error_result = Some e \<rparr> \<and>
             subject (emptyEmail c) = SubjectText [] \<and> body (emptyEmail c) = []"
    unfolding composeBatch_nth [OF i] Let_def
    by (simp add: composeOne_def effectiveOptions_def emptyEmail_def split: prod.splits sum.splits)
qed

theorem composeBatch_results_witness:
  "(0::nat) < length [exStranger, exContact] \<and> Suc 0 < length [exStranger, exContact] \<and>
   snd (composeBatch Map.empty exComposer [exStranger, exContact] exOptions None) ! 0 =
     \<lparr> contact_result = exStranger, email_result = emptyEmail exStranger,
       error_result = Some (Error ''Unknown audience type: aliens'') \<rparr> \<and>
   contact_result (snd (composeBatch Map.empty exComposer [exStranger, exContact] exOptions None) ! Suc 0)
     = exContact \<and>
   error_result (snd (composeBatch Map.empty exComposer [exStranger, exContact] exOptions None) ! Suc 0)
     = None"
proof -
  note t = composeBatch_results [of Map.empty exComposer "[exStranger, exContact]" exOptions None]
  have l0: "(0::nat) < length [exStranger, exContact]" and l1: "Suc 0 < length [exStranger, exContact]"
    by simp_all
  have s: "composeEmail Map.empty exComposer exStranger exOptions
      = (exComposer, Inl (Error ''Unknown audience type: aliens''))"
    by (simp add: composeEmail_def exStranger_def ex_composer)
  have "snd (composeBatch Map.empty exComposer [exStranger, exContact] exOptions None) ! 0 =
     \<lparr> contact_result = exStranger, email_result = emptyEmail exStranger,
       error_result = Some (Error ''Unknown audience type: aliens'') \<rparr>"
    using t [THEN conjunct2, THEN conjunct2, rule_format, OF l0]
    by (simp add: Let_def s del: composeBatch.simps(2))
  moreover
  have b: "fst (composeBatch Map.empty exComposer [exStranger] exOptions None) = exComposer"
    by (simp add: composeOne_def effectiveOptions_def s)
  have "snd (composeBatch Map.empty exComposer [exStranger, exContact] exOptions None) ! Suc 0 =
     \<lparr> contact_result = exContact,
       email_result = projr (snd (composeEmail Map.empty exComposer exContact exOptions)),
       error_result = None \<rparr>"
    using t [THEN conjunct2, THEN conjunct2, rule_format, OF l1]
    by (simp add: Let_def b ex_compose del: composeBatch.simps(2))
  ultimately show ?thesis using l0 l1 by simp
qed

text \<open>
  The guard of \<^verbatim>\<open>composeEmail\<close>, for an audience type that is neither configured nor
  the name of an inherited member: the composition fails with the error
  \<^verbatim>\<open>Unknown audience type: ...\<close> naming the type, whatever the other contact fields
  and the options are, and the composer is left as it was.
\<close>

lemma composeEmail_absent_audience:
  assumes "audienceConfigs cmp (audience_type contact) = None"
      and "audience_type contact \<notin>
         {''constructor'', ''__defineGetter__'', ''__defineSetter__'', ''hasOwnProperty'',
           ''__lookupGetter__'', ''__lookupSetter__'', ''isPrototypeOf'',
           ''propertyIsEnumerable'', ''toString'', ''valueOf'', ''__proto__'',
           ''toLocaleString''}"
  shows "composeEmail files cmp contact options =
     (cmp, Inl (Error (''Unknown audience type: '' @ audience_type contact)))"
  using assms by (simp add: composeEmail_def objectGet_def objectPrototypeMembers_def)

text \<open>
  Claim C2 says that \<^verbatim>\<open>composeEmail\<close> fails with the unknown-audience error for every
  contact whose audience type has no entry in the audience configuration. The code does
  not fail for an audience type that is the name of a member every plain object inherits:
  with only \<^verbatim>\<open>vcs\<close> configured and the audience type \<^verbatim>\<open>constructor\<close>, the lookup
  finds the inherited member, the guard lets it pass, and an email is returned, made of the
  blocks that match an undefined selector and with the inherited member as its subject.
\<close>

theorem composeEmail_inherited_audience:
  "audience_type exHeir = ''constructor'' \<and>
   audienceConfigs exComposer (audience_type exHeir) = None \<and>
   composeEmail Map.empty exComposer exHeir exOptions = (exComposer, Inr exHeirComposed) \<and>
   subject exHeirComposed = SubjectMember ''constructor'' \<and>
   body exHeirComposed = ''Tickets: t.example (until June 15)''"
proof -
  have "audience_type exHeir = ''constructor''" by (simp add: exHeir_def)
  moreover have "audienceConfigs exComposer (audience_type exHeir) = None"
    by (simp add: exHeir_def exComposer_def)
  moreover have "subject exHeirComposed = SubjectMember ''constructor''"
    "body exHeirComposed = ''Tickets: t.example (until June 15)''"
    by (simp_all add: exHeirComposed_def)
  ultimately show ?thesis using ex_heir_compose by blast
qed

section \<open>Block selection\<close>

text \<open>
  Claim C4. \<^verbatim>\<open>selectBlock\<close> finds its block in three tries, the first that succeeds
  deciding: the load of the identifier \<^verbatim>\<open>category/selector\<close> (from the cache, else
  from the block directory); else the first block of the category whose tags contain the
  selector; else the first block of the category whose tone is the selector. When all
  three fail the result is not-found. The function has no failing branch; the last
  conjunct ties its result to the block so found.
\<close>

theorem selectBlock_priority:
  assumes "loadBlock files bs (categoryName cat @ ''/'' @ selector) = (bs', loaded)"
  shows
    "loaded = (case blocks bs (categoryName cat @ ''/'' @ selector) of
                 Some cached \<Rightarrow> Some cached
               | None \<Rightarrow> files (categoryName cat @ ''/'' @ selector)) \<and>
     (\<forall>block. loaded = Some block \<longrightarrow> resolveBlock files bs cat selector = (bs', Some block)) \<and>
     (loaded = None \<longrightarrow> bs' = bs) \<and>
     (\<forall>i. loaded = None \<longrightarrow> i < length (getBlocksByCategory bs cat) \<longrightarrow>
          selector \<in> set (tags (getBlocksByCategory bs cat ! i)) \<longrightarrow>
          (\<forall>j<i. selector \<notin> set (tags (getBlocksByCategory bs cat ! j))) \<longrightarrow>
          resolveBlock files bs cat selector = (bs, Some (getBlocksByCategory bs cat ! i))) \<and>
     (\<forall>i. loaded = None \<longrightarrow>
          (\<forall>b\<in>set (getBlocksByCategory bs cat). selector \<notin> set (tags b)) \<longrightarrow>
          i < length (getBlocksByCategory bs cat) \<longrightarrow>
          tone_block (getBlocksByCategory bs cat ! i) = Some selector \<longrightarrow>
          (\<forall>j<i. tone_block (getBlocksByCategory bs cat ! j) \<noteq> Some selector) \<longrightarrow>
          resolveBlock files bs cat selector = (bs, Some (getBlocksByCategory bs cat ! i))) \<and>
     (loaded = None \<longrightarrow>
          (\<forall>b\<in>set (getBlocksByCategory bs cat).
              selector \<notin> set (tags b) \<and> tone_block b \<noteq> Some selector) \<longrightarrow>
          resolveBlock files bs cat selector = (bs, None) \<and>
          selectBlock files bs cat selector variantId = (bs, None)) \<and>
     selectBlock files bs cat selector variantId =
       (fst (resolveBlock files bs cat selector),
        case snd (resolveBlock files bs cat selector) of
          None \<Rightarrow> None
        | Some block \<Rightarrow> map_option (Pair block) (selectVariant block variantId))"
proof (intro conjI allI impI)
  show "loaded = (case blocks bs (categoryName cat @ ''/'' @ selector) of
                 Some cached \<Rightarrow> Some cached
               | None \<Rightarrow> files (categoryName cat @ ''/'' @ selector))"
    using assms by (auto simp: loadBlock_def Let_def split: option.splits)
next
  fix block assume "loaded = Some block"
  with assms show "resolveBlock files bs cat selector = (bs', Some block)"
    by (simp add: resolveBlock_def)
next
  assume "loaded = None"
  with assms show "bs' = bs" by (simp add: loadBlock_None)
next
  fix i
  assume l: "loaded = None" and i: "i < length (getBlocksByCategory bs cat)"
    and t: "selector \<in> set (tags (getBlocksByCategory bs cat ! i))"
    and f: "\<forall>j<i. selector \<notin> set (tags (getBlocksByCategory bs cat ! j))"
  from assms l have ld: "loadBlock files bs (categoryName cat @ ''/'' @ selector) = (bs, None)"
    by (simp add: loadBlock_None)
  have "find (\<lambda>b. selector \<in> set (tags b)) (getBlocksByCategory bs cat)
      = Some (getBlocksByCategory bs cat ! i)"
    using i t f by (rule find_first)
  with ld show "resolveBlock files bs cat selector = (bs, Some (getBlocksByCategory bs cat ! i))"
    by (simp add: resolveBlock_def)
next
  fix i
  assume l: "loaded = None"
    and nt: "\<forall>b\<in>set (getBlocksByCategory bs cat). selector \<notin> set (tags b)"
    and i: "i < length (getBlocksByCategory bs cat)"
    and t: "tone_block (getBlocksByCategory bs cat ! i) = Some selector"
    and f: "\<forall>j<i. tone_block (getBlocksByCategory bs cat ! j) \<noteq> Some selector"
  from assms l have ld: "loadBlock files bs (categoryName cat @ ''/'' @ selector) = (bs, None)"
    by (simp add: loadBlock_None)
  have a: "find (\<lambda>b. selector \<in> set (tags b)) (getBlocksByCategory bs cat) = None"
    using nt by (rule find_none)
  have "find (\<lambda>b. tone_block b = Some selector) (getBlocksByCategory bs cat)
      = Some (getBlocksByCategory bs cat ! i)"
    using i t f by (rule find_first)
  with ld a show "resolveBlock files bs cat selector = (bs, Some (getBlocksByCategory bs cat ! i))"
    by (simp add: resolveBlock_def)
next
  assume l: "loaded = None"
    and n: "\<forall>b\<in>set (getBlocksByCategory bs cat).
              selector \<notin> set (tags b) \<and> tone_block b \<noteq> Some selector"
  from assms l have ld: "loadBlock files bs (categoryName cat @ ''/'' @ selector) = (bs, None)"
    by (simp add: loadBlock_None)
  have a: "find (\<lambda>b. selector \<in> set (tags b)) (getBlocksByCategory bs cat) = None"
    using n by (simp add: find_None_iff)
  have b: "find (\<lambda>b. tone_block b = Some selector) (getBlocksByCategory bs cat) = None"
    using n by (simp add: find_None_iff)
  from ld a b show r: "resolveBlock files bs cat selector = (bs, None)"
    by (simp add: resolveBlock_def)
  then show "selectBlock files bs cat selector variantId = (bs, None)"
    by (simp add: selectBlock_def)
next
  show "selectBlock files bs cat selector variantId =
       (fst (resolveBlock files bs cat selector),
        case snd (resolveBlock files bs cat selector) of
          None \<Rightarrow> None
        | Some block \<Rightarrow> map_option (Pair block) (selectVariant block variantId))"
    by (cases "resolveBlock files bs cat selector")
       (auto simp: selectBlock_def split: option.splits)
qed

theorem selectBlock_priority_witness:
  "loadBlock Map.empty exSelector (categoryName Greeting @ ''/'' @ ''formal'') = (exSelector, None) \<and>
   (0::nat) < length (getBlocksByCategory exSelector Greeting) \<and>
   ''formal'' \<notin> set (tags exGreeting) \<and>
   tone_block (getBlocksByCategory exSelector Greeting ! 0) = Some ''formal'' \<and>
   resolveBlock Map.empty exSelector Greeting ''formal'' = (exSelector, Some exGreeting)"
proof -
  have ld: "loadBlock Map.empty exSelector (categoryName Greeting @ ''/'' @ ''formal'') = (exSelector, None)"
    by (simp add: loadBlock_def exSelector_def)
  have c: "getBlocksByCategory exSelector Greeting = [exGreeting]"
    by (simp add: getBlocksByCategory_def exSelector_def)
  have t: "''formal'' \<notin> set (tags exGreeting)" "tone_block exGreeting = Some ''formal''"
    by (simp_all add: exGreeting_def)
  note th = selectBlock_priority [OF ld, THEN conjunct2, THEN conjunct2, THEN conjunct2,
      THEN conjunct2, THEN conjunct1, rule_format, of 0]
  have "resolveBlock Map.empty exSelector Greeting ''formal''
      = (exSelector, Some (getBlocksByCategory exSelector Greeting ! 0))"
    by (rule th) (simp_all add: c t)
  with ld c t show ?thesis by simp
qed

text \<open>
  Claim C5, as stated, fails for the empty variant identifier: given the identifier
  \<^verbatim>\<open>''\<close> and a block whose second variant has that identifier, the first variant is
  used, because the identifier is looked up only when it is truthy.
\<close>

theorem selectBlock_empty_variantId_counterexample:
  "id_variant (variants exClosing ! 1) = [] \<and>
   selectBlock Map.empty exClosingSelector Closing ''casual'' (Some [])
     = (exClosingSelector, Some (exClosing, variants exClosing ! 0)) \<and>
   variants exClosing ! 0 \<noteq> variants exClosing ! 1"
  by (simp add: selectBlock_def resolveBlock_def loadBlock_def selectVariant_def
        exClosingSelector_def exClosing_def)

text \<open>
  Claim C5, amended. For the block that \<^verbatim>\<open>selectBlock\<close> matched: a block without
  variants gives not-found; a non-empty \<^verbatim>\<open>variantId\<close> that some variant of the block
  carries selects the first variant carrying it; in every other case (no identifier, the
  empty one, or one that no variant carries) the first variant of the block is used. The
  choice is a function of the block and the identifier alone: no random draw enters it.
\<close>

theorem selectBlock_variant:
  assumes "resolveBlock files bs cat selector = (bs', Some block)"
  shows
    "(variants block = [] \<longrightarrow> selectBlock files bs cat selector variantId = (bs', None)) \<and>
     (\<forall>vid i. variantId = Some vid \<longrightarrow> vid \<noteq> [] \<longrightarrow> i < length (variants block) \<longrightarrow>
        id_variant (variants block ! i) = vid \<longrightarrow>
        (\<forall>j<i. id_variant (variants block ! j) \<noteq> vid) \<longrightarrow>
        selectBlock files bs cat selector variantId = (bs', Some (block, variants block ! i))) \<and>
     (variants block \<noteq> [] \<longrightarrow>
        (variantId = None \<or> variantId = Some [] \<or>
         (\<forall>v\<in>set (variants block). Some (id_variant v) \<noteq> variantId)) \<longrightarrow>
        selectBlock files bs cat selector variantId = (bs', Some (block, hd (variants block))))"
proof (intro conjI allI impI)
  assume "variants block = []"
  with assms show "selectBlock files bs cat selector variantId = (bs', None)"
    by (simp add: selectBlock_def selectVariant_def split: option.splits)
next
  fix vid i
  assume v: "variantId = Some vid" "vid \<noteq> []" and i: "i < length (variants block)"
    and t: "id_variant (variants block ! i) = vid"
    and f: "\<forall>j<i. id_variant (variants block ! j) \<noteq> vid"
  have "find (\<lambda>v. id_variant v = vid) (variants block) = Some (variants block ! i)"
    using i t f by (rule find_first)
  with assms v show "selectBlock files bs cat selector variantId = (bs', Some (block, variants block ! i))"
    by (simp add: selectBlock_def selectVariant_def)
next
  assume ne: "variants block \<noteq> []"
    and d: "variantId = None \<or> variantId = Some [] \<or>
         (\<forall>v\<in>set (variants block). Some (id_variant v) \<noteq> variantId)"
  have "selectVariant block variantId = Some (hd (variants block))"
  proof (cases variantId)
    case None
    with ne show ?thesis by (simp add: selectVariant_def split: list.splits)
  next
    case (Some vid)
    show ?thesis
    proof (cases "vid = []")
      case True
      with Some ne show ?thesis by (simp add: selectVariant_def split: list.splits)
    next
      case False
      with Some d have "\<forall>v\<in>set (variants block). id_variant v \<noteq> vid" by auto
      then have "find (\<lambda>v. id_variant v = vid) (variants block) = None"
        by (simp add: find_None_iff)
      with Some False ne show ?thesis by (simp add: selectVariant_def split: list.splits)
    qed
  qed
  with assms show "selectBlock files bs cat selector variantId = (bs', Some (block, hd (variants block)))"
    by (simp add: selectBlock_def)
qed

theorem selectBlock_variant_witness:
  "resolveBlock Map.empty exSelector Greeting ''formal'' = (exSelector, Some exGreeting) \<and>
   variants exGreeting \<noteq> [] \<and>
   selectBlock Map.empty exSelector Greeting ''formal'' None
     = (exSelector, Some (exGreeting, hd (variants exGreeting))) \<and>
   ''formal-full-name'' \<noteq> [] \<and> Suc 0 < length (variants exGreeting) \<and>
   id_variant (variants exGreeting ! Suc 0) = ''formal-full-name'' \<and>
   id_variant (variants exGreeting ! 0) \<noteq> ''formal-full-name'' \<and>
   selectBlock Map.empty exSelector Greeting ''formal'' (Some ''formal-full-name'')
     = (exSelector, Some (exGreeting, variants exGreeting ! Suc 0))"
proof -
  note r = ex_resolve_greeting
  have ne: "variants exGreeting \<noteq> []" by (simp add: exGreeting_def)
  from selectBlock_variant [OF r, of None, THEN conjunct2, THEN conjunct2] ne
  have a: "selectBlock Map.empty exSelector Greeting ''formal'' None
     = (exSelector, Some (exGreeting, hd (variants exGreeting)))" by blast
  have v: "''formal-full-name'' \<noteq> []" by simp
  have l: "Suc 0 < length (variants exGreeting)" by (simp add: exGreeting_def)
  have i: "id_variant (variants exGreeting ! Suc 0) = ''formal-full-name''"
    by (simp add: exGreeting_def)
  have j: "id_variant (variants exGreeting ! 0) \<noteq> ''formal-full-name''"
    by (simp add: exGreeting_def)
  then have j': "\<And>j. j < Suc 0 \<Longrightarrow> id_variant (variants exGreeting ! j) \<noteq> ''formal-full-name''"
    by simp
  from selectBlock_variant [OF r, of "Some ''formal-full-name''", THEN conjunct2, THEN conjunct1,
      rule_format, OF refl v l i j']
  have b: "selectBlock Map.empty exSelector Greeting ''formal'' (Some ''formal-full-name'')
     = (exSelector, Some (exGreeting, variants exGreeting ! Suc 0))" .
  from r ne a v l i j b show ?thesis by blast
qed

section \<open>Variable map, subject and residual tokens\<close>

text \<open>
  Claim C6, as stated, fails: a key that is both a custom variable and a further key of
  the contact takes the contact's value, and a named field with a default (here
  \<^verbatim>\<open>sector\<close>, present but empty on the contact) is overwritten by the contact's raw
  value.
\<close>

theorem prepareVariables_precedence_counterexample:
  "customVariables exOptions = Some [''deadline'' \<mapsto> ''June 15''] \<and>
   map_of (properties exBusy) ''deadline'' = Some (JString ''May 1'') \<and>
   prepareVariables exEvent exBusy exOptions ''deadline'' = Some (JString ''May 1'') \<and>
   substitute ''{{deadline}}'' (prepareVariables exEvent exBusy exOptions) noOptions = Inr ''May 1'' \<and>
   objectOf (namedVariables exEvent exBusy) ''sector'' = Some (JString ''biotech'') \<and>
   prepareVariables exEvent exBusy exOptions ''sector'' = Some (JString [])"
proof -
  have d: "prepareVariables exEvent exBusy exOptions ''deadline'' = Some (JString ''May 1'')"
    by (simp add: prepareVariables_def additionalFields_apply exBusy_def contactGet_def map_add_def)
  have h: "prepareVariables exEvent exBusy exOptions ''hasOwnProperty'' = None"
    by (simp add: prepareVariables_def additionalFields_apply exBusy_def contactGet_def map_add_def
          exOptions_def emptyOptions_def objectOf_def namedVariables_def)
  have "substitute ''{{deadline}}'' (prepareVariables exEvent exBusy exOptions) noOptions = Inr ''May 1''"
    by (simp add: substitute_def matchToken_def isWordChar_def replaceCallback_def d h)
  moreover have "objectOf (namedVariables exEvent exBusy) ''sector'' = Some (JString ''biotech'')"
    by (simp add: objectOf_def namedVariables_def exBusy_def contactGet_def orElse_def)
  moreover have "prepareVariables exEvent exBusy exOptions ''sector'' = Some (JString [])"
    by (simp add: prepareVariables_def additionalFields_apply exBusy_def contactGet_def map_add_def)
  moreover have "customVariables exOptions = Some [''deadline'' \<mapsto> ''June 15'']"
    by (simp add: exOptions_def)
  moreover have "map_of (properties exBusy) ''deadline'' = Some (JString ''May 1'')"
    by (simp add: exBusy_def)
  ultimately show ?thesis using d by blast
qed

text \<open>
  Claim C6, amended. In the variable map the contact's own keys, all but
  \<^verbatim>\<open>audience_type\<close>, \<^verbatim>\<open>email\<close>, \<^verbatim>\<open>first_name\<close> and
  \<^verbatim>\<open>last_name\<close>, come last and win with the contact's raw value; for every other key
  a custom variable of the options wins over the named contact and event entries, which
  apply when neither of the two supplies the key.
\<close>

theorem prepareVariables_precedence:
  "prepareVariables ev contact options k =
     (if k \<in> set (map fst (properties contact)) \<and>
         k \<notin> {''audience_type'', ''email'', ''first_name'', ''last_name''}
      then Some (contactGet contact k)
      else case (case customVariables options of Some custom \<Rightarrow> custom k | None \<Rightarrow> None) of
             Some s \<Rightarrow> Some (JString s)
           | None \<Rightarrow> objectOf (namedVariables ev contact) k)"
  by (simp add: prepareVariables_def additionalFields_apply map_add_def split: option.splits)

theorem prepareVariables_precedence_witness:
  "prepareVariables exEvent exBusy exOptions ''deadline'' = Some (JString ''May 1'') \<and>
   prepareVariables exEvent exContact exOptions ''deadline'' = Some (JString ''June 15'') \<and>
   prepareVariables exEvent exContact exOptions ''sector'' = Some (JString ''biotech'')"
proof -
  have "prepareVariables exEvent exBusy exOptions ''deadline'' = Some (JString ''May 1'')"
    using prepareVariables_precedence [of exEvent exBusy exOptions "''deadline''"]
    by (simp add: exBusy_def contactGet_def)
  moreover have "prepareVariables exEvent exContact exOptions ''deadline'' = Some (JString ''June 15'')"
    using prepareVariables_precedence [of exEvent exContact exOptions "''deadline''"]
    by (simp add: exContact_def exOptions_def)
  moreover have "prepareVariables exEvent exContact exOptions ''sector'' = Some (JString ''biotech'')"
    using prepareVariables_precedence [of exEvent exContact exOptions "''sector''"]
    by (simp add: exContact_def exOptions_def emptyOptions_def objectOf_def namedVariables_def
          contactGet_def orElse_def)
  ultimately show ?thesis by blast
qed

text \<open>
  Claim C7, as stated, fails: the subject template is not substituted with the variable
  map of the body. With a custom variable \<^verbatim>\<open>deadline\<close> the body shows its value,
  while the subject, whose template names it too, shows the empty string.
\<close>

theorem composeEmail_subject_counterexample:
  "audienceConfigs exComposer (audience_type exContact) = Some exVcs \<and>
   subjectTemplate exVcs = Some ''{{event_name}}: apply by {{deadline}}'' \<and>
   customVariables exOptions = Some [''deadline'' \<mapsto> ''June 15''] \<and>
   substitute ''{{event_name}}: apply by {{deadline}}''
     (prepareVariables (eventDetails exComposer) exContact exOptions) noOptions
       = Inr ''Summit: apply by June 15'' \<and>
   snd (composeEmail Map.empty exComposer exContact exOptions) = Inr exComposed \<and>
   subject exComposed = SubjectText ''Summit: apply by '' \<and>
   body exComposed = ''Dear Dr. Mueller,'' @ blankLine @ ''Tickets: t.example (until June 15)''"
proof -
  have "audienceConfigs exComposer (audience_type exContact) = Some exVcs"
    by (simp add: exComposer_def exContact_def)
  moreover have "subjectTemplate exVcs = Some ''{{event_name}}: apply by {{deadline}}''"
    by (simp add: exVcs_def)
  moreover have "customVariables exOptions = Some [''deadline'' \<mapsto> ''June 15'']"
    by (simp add: exOptions_def)
  moreover have e: "eventDetails exComposer = exEvent" by (simp add: exComposer_def)
  moreover have "substitute ''{{event_name}}: apply by {{deadline}}''
     (prepareVariables exEvent exContact exOptions) noOptions = Inr ''Summit: apply by June 15''"
    by (simp add: substitute_def matchToken_def isWordChar_def replaceCallback_def ex_vars)
  moreover have "subject exComposed = SubjectText ''Summit: apply by ''"
    "body exComposed = ''Dear Dr. Mueller,'' @ blankLine @ ''Tickets: t.example (until June 15)''"
    by (simp_all add: exComposed_def)
  ultimately show ?thesis by (simp add: ex_compose)
qed

text \<open>
  Claim C7, amended. The subject of a composed email, for a contact whose audience type
  has an entry in the configuration: when the entry has a non-empty subject template, that
  template substituted (defaults: not strict, not keeping placeholders) with the variable
  map built from the contact and the event alone, without the options and so without their
  custom variables; otherwise, for an audience type that is not the name of a member
  inherited by every plain object, the fixed default line of the audience type, for the
  nine built-in types, and the generic invitation line with the event name for any other.
  The event name is \<^verbatim>\<open>Event\<close> when the event details give none. The subject is the
  same for all options. (What the subject is when the table of default lines is read at
  the name of an inherited member is left open here.)
\<close>

theorem composeEmail_subject_derivation:
  assumes "composeEmail files cmp contact options = (cmp', Inr composed)"
      and "audienceConfigs cmp (audience_type contact) = Some cfg"
  shows
    "(\<forall>t. subjectTemplate cfg = Some t \<longrightarrow> t \<noteq> [] \<longrightarrow>
        (\<exists>s. substitute t (prepareVariables (eventDetails cmp) contact emptyOptions) noOptions
            = Inr s \<and> subject composed = SubjectText s)) \<and>
     (subjectTemplate cfg = None \<or> subjectTemplate cfg = Some [] \<longrightarrow>
      audience_type contact \<notin>
         {''constructor'', ''__defineGetter__'', ''__defineSetter__'', ''hasOwnProperty'',
           ''__lookupGetter__'', ''__lookupSetter__'', ''isPrototypeOf'',
           ''propertyIsEnumerable'', ''toString'', ''valueOf'', ''__proto__'',
           ''toLocaleString''} \<longrightarrow>
        subject composed = SubjectText
          (let eventName = (case name_event (eventDetails cmp) of
                                Some n \<Rightarrow> if n \<noteq> [] then n else ''Event''
                              | None \<Rightarrow> ''Event'');
                 audienceType = audience_type contact
             in if audienceType = ''nonprofits'' then ''Partnership Opportunity: '' @ eventName
                else if audienceType = ''vcs''
                  then ''Invitation: '' @ eventName @ '' - Biotech Startup Showcase''
                else if audienceType = ''startups-pitch''
                  then ''Pitch Your Startup at '' @ eventName
                else if audienceType = ''startups-share''
                  then ''Help Us Spread the Word: '' @ eventName
                else if audienceType = ''gradschools'' then ''Student Opportunity: '' @ eventName
                else if audienceType = ''mentors''
                  then ''Invitation to Judge: '' @ eventName @ '' Pitch Contest''
                else if audienceType = ''startup-factories''
                  then ''Connect with Biotech Ecosystem: '' @ eventName
                else if audienceType = ''vips'' then ''Personal Invitation: '' @ eventName
                else if audienceType = ''journalists'' then ''Press Invitation: '' @ eventName
                else ''Invitation: '' @ eventName)) \<and>
     (\<forall>options' cmp'' composed'.
        composeEmail files cmp contact options' = (cmp'', Inr composed') \<longrightarrow>
        subject composed' = subject composed)"
proof (intro conjI allI impI)
  note g = composeEmail_subject [OF assms(1)]
  have own: "objectGet (audienceConfigs cmp) (audience_type contact) = Own cfg"
    using assms(2) by (simp add: objectGet_def)
  {
    fix t assume "subjectTemplate cfg = Some t" "t \<noteq> []"
    with g own
    show "\<exists>s. substitute t (prepareVariables (eventDetails cmp) contact emptyOptions) noOptions
            = Inr s \<and> subject composed = SubjectText s"
      by (auto simp: generateSubject_def Let_def strOr_def split: sum.splits)
  next
    assume "subjectTemplate cfg = None \<or> subjectTemplate cfg = Some []"
      and m: "audience_type contact \<notin>
         {''constructor'', ''__defineGetter__'', ''__defineSetter__'', ''hasOwnProperty'',
           ''__lookupGetter__'', ''__lookupSetter__'', ''isPrototypeOf'',
           ''propertyIsEnumerable'', ''toString'', ''valueOf'', ''__proto__'',
           ''toLocaleString''}"
    then have "strOr (subjectTemplate cfg) [] = []"
      by (auto simp: strOr_def)
    with g own
    have s: "Inr (subject composed) =
        (case objectGet (objectOf (subjectTemplates (strOr (name_event (eventDetails cmp)) ''Event'')))
                (audience_type contact) of
           Own s \<Rightarrow> Inr (SubjectText (if s \<noteq> [] then s
                  else ''Invitation: '' @ strOr (name_event (eventDetails cmp)) ''Event''))
         | Inherited \<Rightarrow> (Inr (SubjectMember (audience_type contact)) :: error + subjectLine)
         | Absent \<Rightarrow> Inr (SubjectText
             (''Invitation: '' @ strOr (name_event (eventDetails cmp)) ''Event'')))"
      by (simp add: generateSubject_def Let_def)
    have n: "(case name_event (eventDetails cmp) of
                                Some n \<Rightarrow> if n \<noteq> [] then n else ''Event''
                              | None \<Rightarrow> ''Event'') = strOr (name_event (eventDetails cmp)) ''Event''"
      by (simp add: strOr_def)
    have "Inr (subject composed) = (Inr (SubjectText
          (let eventName = (case name_event (eventDetails cmp) of
                                Some n \<Rightarrow> if n \<noteq> [] then n else ''Event''
                              | None \<Rightarrow> ''Event'');
                 audienceType = audience_type contact
             in if audienceType = ''nonprofits'' then ''Partnership Opportunity: '' @ eventName
                else if audienceType = ''vcs''
                  then ''Invitation: '' @ eventName @ '' - Biotech Startup Showcase''
                else if audienceType = ''startups-pitch''
                  then ''Pitch Your Startup at '' @ eventName
                else if audienceType = ''startups-share''
                  then ''Help Us Spread the Word: '' @ eventName
                else if audienceType = ''gradschools'' then ''Student Opportunity: '' @ eventName
                else if audienceType = ''mentors''
                  then ''Invitation to Judge: '' @ eventName @ '' Pitch Contest''
                else if audienceType = ''startup-factories''
                  then ''Connect with Biotech Ecosystem: '' @ eventName
                else if audienceType = ''vips'' then ''Personal Invitation: '' @ eventName
                else if audienceType = ''journalists'' then ''Press Invitation: '' @ eventName
                else ''Invitation: '' @ eventName)) :: error + subjectLine)"
      unfolding s n Let_def using m
      by (simp add: objectGet_def objectPrototypeMembers_def objectOf_def subjectTemplates_def)
    then show "subject composed = SubjectText
          (let eventName = (case name_event (eventDetails cmp) of
                                Some n \<Rightarrow> if n \<noteq> [] then n else ''Event''
                              | None \<Rightarrow> ''Event'');
                 audienceType = audience_type contact
             in if audienceType = ''nonprofits'' then ''Partnership Opportunity: '' @ eventName
                else if audienceType = ''vcs''
                  then ''Invitation: '' @ eventName @ '' - Biotech Startup Showcase''
                else if audienceType = ''startups-pitch''
                  then ''Pitch Your Startup at '' @ eventName
                else if audienceType = ''startups-share''
                  then ''Help Us Spread the Word: '' @ eventName
                else if audienceType = ''gradschools'' then ''Student Opportunity: '' @ eventName
                else if audienceType = ''mentors''
                  then ''Invitation to Judge: '' @ eventName @ '' Pitch Contest''
                else if audienceType = ''startup-factories''
                  then ''Connect with Biotech Ecosystem: '' @ eventName
                else if audienceType = ''vips'' then ''Personal Invitation: '' @ eventName
                else if audienceType = ''journalists'' then ''Press Invitation: '' @ eventName
                else ''Invitation: '' @ eventName)"
      by simp
  next
    fix options' cmp'' composed'
    assume "composeEmail files cmp contact options' = (cmp'', Inr composed')"
    from composeEmail_subject [OF this] g show "subject composed' = subject composed" by simp
  }
qed

theorem composeEmail_subject_derivation_witness:
  "composeEmail Map.empty exComposer exContact exOptions = (exComposer, Inr exComposed) \<and>
   audienceConfigs exComposer (audience_type exContact) = Some exVcs \<and>
   subjectTemplate exVcs = Some ''{{event_name}}: apply by {{deadline}}'' \<and>
   ''{{event_name}}: apply by {{deadline}}'' \<noteq> [] \<and>
   substitute ''{{event_name}}: apply by {{deadline}}''
     (prepareVariables (eventDetails exComposer) exContact emptyOptions) noOptions
       = Inr ''Summit: apply by ''"
proof -
  have a: "audienceConfigs exComposer (audience_type exContact) = Some exVcs"
    by (simp add: exComposer_def exContact_def)
  have t: "subjectTemplate exVcs = Some ''{{event_name}}: apply by {{deadline}}''"
    by (simp add: exVcs_def)
  have ne: "''{{event_name}}: apply by {{deadline}}'' \<noteq> []" by simp
  have su: "subject exComposed = SubjectText ''Summit: apply by ''" by (simp add: exComposed_def)
  from composeEmail_subject_derivation [OF ex_compose a, THEN conjunct1, rule_format, OF t ne]
  have "substitute ''{{event_name}}: apply by {{deadline}}''
     (prepareVariables (eventDetails exComposer) exContact emptyOptions) noOptions
       = Inr ''Summit: apply by ''" unfolding su by auto
  with ex_compose a t ne show ?thesis by blast
qed




text \<open>
  Claim C10. \<^verbatim>\<open>composeEmail\<close> does not read \<^verbatim>\<open>options.variantPreferences\<close>:
  replacing them by any other value leaves the result (and the composer it leaves behind)
  unchanged; and every block it resolves comes with the first variant of that block,
  whatever the audience configuration it found (\<open>audienceConfig\<close> ranges over the entries
  and over \<open>None\<close>, which stands for an inherited member).
\<close>

theorem composeEmail_ignores_variantPreferences:
  "composeEmail files cmp contact (options\<lparr> variantPreferences := vp \<rparr>)
     = composeEmail files cmp contact options \<and>
   (\<forall>audienceConfig block variant.
      Some (block, variant) \<in> set (selectionList (snd (selectAll files (blockSelector cmp)
          audienceConfig options
          (orUndefined (tone_option options) (map_option tone_config audienceConfig))))) \<longrightarrow>
      variants block \<noteq> [] \<and> variant = hd (variants block))"
proof (rule conjI)
  have "\<And>a. composeFound files cmp contact (options\<lparr> variantPreferences := vp \<rparr>) a
      = composeFound files cmp contact options a"
    by (simp add: composeFound_def Let_def selectAll_variantPreferences
          prepareVariables_variantPreferences asSubstitutionOptions_def)
  then show "composeEmail files cmp contact (options\<lparr> variantPreferences := vp \<rparr>)
     = composeEmail files cmp contact options"
    by (simp add: composeEmail_def split: property.splits)
next
  show "\<forall>audienceConfig block variant.
      Some (block, variant) \<in> set (selectionList (snd (selectAll files (blockSelector cmp)
          audienceConfig options
          (orUndefined (tone_option options) (map_option tone_config audienceConfig))))) \<longrightarrow>
      variants block \<noteq> [] \<and> variant = hd (variants block)"
    by (blast dest: selectAll_first)
qed

theorem composeEmail_ignores_variantPreferences_witness:
  "composeEmail Map.empty exComposer exContact
      (exOptions\<lparr> variantPreferences := Some [''greeting-formal'' \<mapsto> ''formal-full-name''] \<rparr>)
     = composeEmail Map.empty exComposer exContact exOptions \<and>
   audienceConfigs exComposer (audience_type exContact) = Some exVcs \<and>
   Some (exGreeting, hd (variants exGreeting)) \<in>
     set (selectionList (snd (selectAll Map.empty (blockSelector exComposer) (Some exVcs) exOptions
       (orUndefined (tone_option exOptions) (map_option tone_config (Some exVcs)))))) \<and>
   variants exGreeting \<noteq> [] \<and>
   id_variant (hd (variants exGreeting)) = ''formal-title-lastname''"
proof -
  note th = composeEmail_ignores_variantPreferences [where files = Map.empty
      and cmp = exComposer and contact = exContact and options = exOptions
      and vp = "Some [''greeting-formal'' \<mapsto> ''formal-full-name'']"]
  have a: "audienceConfigs exComposer (audience_type exContact) = Some exVcs"
    by (simp add: exComposer_def exContact_def)
  have s: "Some (exGreeting, hd (variants exGreeting)) \<in>
     set (selectionList (snd (selectAll Map.empty (blockSelector exComposer) (Some exVcs) exOptions
       (orUndefined (tone_option exOptions) (map_option tone_config (Some exVcs))))))"
    by (simp add: ex_composer ex_tone ex_select selectionList_def)
  from th [THEN conjunct2, rule_format, OF s]
  have n: "variants exGreeting \<noteq> []" by blast
  have i: "id_variant (hd (variants exGreeting)) = ''formal-title-lastname''"
    by (simp add: exGreeting_def)
  from th [THEN conjunct1] a s n i show ?thesis by blast
qed

end
